theory Spec2Isabelle
  imports Main
begin

section \<open>Data model\<close>

text \<open>
  The song-request plugin (class \<open>songRequest\<close>) is embedded shallowly. Every remote
  call, the key-value cache, the filesystem and the host's delivery channels are made
  explicit: the cache and the filesystem are fields of \<open>state\<close>, the answers of the
  remote services are fields of \<open>env\<close>, and a JavaScript exception (a rejected promise)
  is the left summand of a result.
\<close>

datatype error =
    TypeError       \<comment> \<open>a property read on \<open>undefined\<close> or \<open>null\<close>\<close>
  | RequestError    \<comment> \<open>a rejected HTTP request\<close>
  | UploadError     \<comment> \<open>\<open>new Error('...')\<close> thrown by \<open>tryUpload\<close>\<close>

text \<open>An entry of \<open>musicDate.data\<close>; \<open>undefined\<close> fields are \<open>None\<close>.\<close>

record track =
  song_id :: nat
  songName :: string
  singerName :: "string option"
  duration :: string
  cover :: "string option"

text \<open>An entry of the list stored under \<open>REDIS_YUNZAI_SONGINFO\<close>.\<close>

record session =
  group_id :: nat
  data :: "track list"

text \<open>An entry of the personal-library list stored under \<open>REDIS_YUNZAI_CLOUDSONGLIST\<close>.\<close>

record cloud_song =
  c_songName :: string
  c_id :: nat
  c_singerName :: string
  c_duration :: string

text \<open>The fields of \<open>musicInfo\<close> in \<open>neteasePlay\<close>. The size label is either the byte count
  of the resolved entry (rendered by \<open>bytesToMB\<close>) or the label of the fallback resolver.\<close>

datatype size_label = SizeMB "nat option" | TempLabel "string option"

record musicInfo =
  mi_cover :: "string option"
  mi_songName :: string
  mi_singerName :: "string option"
  mi_size :: size_label
  musicType :: "string option list"

text \<open>What the plugin hands to the host: replies, group files and music cards.\<close>

datatype sent =
    NotFound                    \<comment> \<open>the "not found" text reply\<close>
  | PickSongImg "track list"    \<comment> \<open>the rendered result list\<close>
  | MusicInfoImg musicInfo      \<comment> \<open>the rendered metadata card\<close>
  | MusicCard nat               \<comment> \<open>\<open>sendMusicCard(e, '163', id)\<close>\<close>
  | GroupFile string            \<comment> \<open>\<open>uploadGroupFile(e, path)\<close>\<close>
  | RecordMsg string            \<comment> \<open>\<open>segment.record(path)\<close>\<close>
  | TimeoutMsg nat              \<comment> \<open>the watcher's timeout reply\<close>
  | UpdateOk                    \<comment> \<open>the "update succeeded" reply\<close>
  | CloudData nat nat nat       \<comment> \<open>count, used size, maximal size\<close>

text \<open>The commands of the rule table, after the regular expressions have matched:
  a keyword search, the short play command with its number \<open>N\<close>, and anything else.\<close>

datatype command = PickSong string | Listen nat | OtherMsg

text \<open>The share card a user replies to with an upload command, after the regular
  expressions of \<open>upLoad\<close>/\<open>uploadCloud\<close> have run: \<open>None\<close> is a failed match.\<close>

record share_card =
  card_id :: "string option"
  card_title :: "string option"
  card_desc :: "string option"

record event =
  e_group_id :: "nat option"
  user_id :: nat
  msg :: command
  reply_msg :: "share_card option"

record toolsConfig =
  useNeteaseSongRequest :: bool
  songRequestMaxList :: nat
  useLocalNeteaseAPI :: bool
  neteaseCloudAPIServer :: string
  neteaseCloudAudioQuality :: string
  neteaseCookie :: string
  neteaseCloudCookie_cfg :: string
  isSendVocal :: bool
  defaultPath :: string
  NETEASE_SONG_DOWNLOAD :: string
  NETEASE_API_CN :: string
  NETEASE_TEMP_API :: string

text \<open>Modelled from the spec: the key-value cache behind \<open>redisExistKey\<close>,
  \<open>redisGetKey\<close> and \<open>redisSetKey\<close> of \<open>utils/redis-util.js\<close>, which is not part of the
  sources, is get and set over fixed string keys; a key that was never set is absent and
  reads as \<open>null\<close>. The mutable state holds the three cache keys (\<open>None\<close> is an absent
  key), the module-level variable \<open>FileSuffix\<close> (\<open>None\<close> is \<open>undefined\<close>), the set of
  paths that exist on disk, what was sent to the host, and the persisted account id.\<close>

record state =
  REDIS_YUNZAI_ISOVERSEA :: "bool option"
  REDIS_YUNZAI_SONGINFO :: "session list option"
  REDIS_YUNZAI_CLOUDSONGLIST :: "cloud_song list option"
  FileSuffix :: "string option"
  files :: "string set"
  outbox :: "sent list"
  neteaseUserId :: "nat option"

definition init_state :: state where
  "init_state = \<lparr> REDIS_YUNZAI_ISOVERSEA = None, REDIS_YUNZAI_SONGINFO = None,
     REDIS_YUNZAI_CLOUDSONGLIST = None, FileSuffix = Some ''flac'', files = {},
     outbox = [], neteaseUserId = None \<rparr>"

definition reply :: "sent \<Rightarrow> state \<Rightarrow> state" where
  "reply x s = s\<lparr>outbox := outbox s @ [x]\<rparr>"

section \<open>File-Readiness Watcher\<close>

text \<open>One polling observation: \<open>checkFileExists\<close> is false, \<open>fs.statSync\<close> throws, or
  the file has the given size.\<close>

datatype obs = Absent | StatFails | Size nat

text \<open>The \<open>while\<close> loop of \<open>waitForFile\<close>. \<open>ob k\<close> is what poll number \<open>k\<close> sees. The
  result is the returned boolean and the value of \<open>attempts\<close> at the return, which is the
  number of 500ms sleeps that were taken.\<close>

function waitLoop :: "(nat \<Rightarrow> obs) \<Rightarrow> nat \<Rightarrow> nat \<Rightarrow> int \<Rightarrow> nat \<Rightarrow> bool \<times> nat" where
  "waitLoop ob maxAttempts attempts lastSize stableChecks =
     (if attempts < maxAttempts then
        (case ob attempts of
           Size currentSize \<Rightarrow>
             (let stableChecks' =
                    (if 0 < currentSize \<and> int currentSize = lastSize
                     then stableChecks + 1 else 0)
              in if 2 \<le> stableChecks' then (True, attempts)
                 else waitLoop ob maxAttempts (attempts + 1) (int currentSize) stableChecks')
         | StatFails \<Rightarrow> waitLoop ob maxAttempts (attempts + 1) (- 1) 0
         | Absent \<Rightarrow> waitLoop ob maxAttempts (attempts + 1) (- 1) 0)
      else (False, attempts))"
  by pat_completeness auto
termination
  by (relation "measure (\<lambda>(ob, maxAttempts, attempts, lastSize, stableChecks).
        maxAttempts - attempts)") auto

declare waitLoop.simps [simp del]

definition waitForFile_run :: "(nat \<Rightarrow> obs) \<Rightarrow> nat \<Rightarrow> bool \<times> nat" where
  "waitForFile_run ob timeoutSeconds = waitLoop ob timeoutSeconds 0 (- 1) 0"

text \<open>\<open>waitForFile(path, e, timeoutSeconds = 120)\<close>: on a timeout the requester is told.\<close>

definition waitForFile :: "(nat \<Rightarrow> obs) \<Rightarrow> nat \<Rightarrow> state \<Rightarrow> bool \<times> state" where
  "waitForFile ob timeoutSeconds s =
     (if fst (waitForFile_run ob timeoutSeconds) then (True, s)
      else (False, reply (TimeoutMsg timeoutSeconds) s))"

text \<open>Observation scripts for concrete runs: a file that never appears, and a finite
  list of observations after which the file is gone.\<close>

definition never_appears :: "nat \<Rightarrow> obs" where
  "never_appears k = Absent"

definition obs_of_list :: "obs list \<Rightarrow> nat \<Rightarrow> obs" where
  "obs_of_list xs k = (if k < length xs then xs ! k else Absent)"

text \<open>The reading of the specification: some two consecutive observations among the first
  \<open>n\<close> have the same positive size.\<close>

fun two_stable_reads :: "(nat \<Rightarrow> obs) \<Rightarrow> nat \<Rightarrow> bool" where
  "two_stable_reads ob 0 = False"
| "two_stable_reads ob (Suc k) =
     (two_stable_reads ob k \<or>
      (case ob k of Size c \<Rightarrow> 0 < c \<and> 0 < k \<and> ob (k - 1) = Size c | _ \<Rightarrow> False))"

text \<open>What the loop needs: three consecutive observations of one positive size, that
  is, two consecutive stable checks.\<close>

definition stable_at :: "(nat \<Rightarrow> obs) \<Rightarrow> nat \<Rightarrow> bool" where
  "stable_at ob i = (case ob i of
       Size c \<Rightarrow> 0 < c \<and> ob (i + 1) = Size c \<and> ob (i + 2) = Size c
     | _ \<Rightarrow> False)"

text \<open>The loop variables as functions of the history, for a run that has not returned
  before poll \<open>a\<close>: \<open>lastSize\<close> is the size seen by the previous poll, and \<open>stableChecks\<close>
  is 1 exactly when the two previous polls saw the same positive size.\<close>

definition lastOf :: "(nat \<Rightarrow> obs) \<Rightarrow> nat \<Rightarrow> int" where
  "lastOf ob a = (if a = 0 then - 1 else case ob (a - 1) of Size c \<Rightarrow> int c | _ \<Rightarrow> - 1)"

definition checksOf :: "(nat \<Rightarrow> obs) \<Rightarrow> nat \<Rightarrow> nat" where
  "checksOf ob a =
     (if 2 \<le> a \<and> (case ob (a - 1) of Size c \<Rightarrow> 0 < c \<and> ob (a - 2) = Size c | _ \<Rightarrow> False)
      then 1 else 0)"

section \<open>Region Selector\<close>

text \<open>\<open>isOverseasServer\<close>: \<open>redisExistKey\<close>, \<open>redisSetKey\<close> and \<open>redisGetKey\<close> act on
  the key \<open>REDIS_YUNZAI_ISOVERSEA\<close>, whose value is the object \<open>{os: b}\<close>.\<close>

definition isOverseasServer :: "state \<Rightarrow> bool \<times> state" where
  "isOverseasServer s =
     (case REDIS_YUNZAI_ISOVERSEA s of
        None \<Rightarrow> (True, s\<lparr>REDIS_YUNZAI_ISOVERSEA := Some False\<rparr>)
      | Some os \<Rightarrow> (os, s))"

definition pickApi :: "toolsConfig \<Rightarrow> state \<Rightarrow> string \<times> state" where
  "pickApi cfg s =
     (let (isOversea, s') = isOverseasServer s
      in if useLocalNeteaseAPI cfg then (neteaseCloudAPIServer cfg, s')
         else (if isOversea then NETEASE_SONG_DOWNLOAD cfg else NETEASE_API_CN cfg, s'))"

section \<open>Remote services and host collaborators\<close>

text \<open>A request: the base address chosen by \<open>pickApi\<close> and the parameters that the
  code puts into the query string.\<close>

datatype url =
    SearchUrl string string nat     \<comment> \<open>\<open>/search?keywords=&limit=\<close>\<close>
  | DetailUrl string "nat list"     \<comment> \<open>\<open>/song/detail?ids=\<close>\<close>
  | SongUrl string nat string       \<comment> \<open>\<open>/song/url/v1?id=&level=\<close>\<close>
  | WikiUrl string nat              \<comment> \<open>\<open>/song/wiki/summary?id=\<close>\<close>
  | StatusUrl string                \<comment> \<open>\<open>/login/status\<close>\<close>
  | CloudInfoUrl string             \<comment> \<open>\<open>/user/cloud\<close>\<close>
  | CloudPostUrl string             \<comment> \<open>\<open>/cloud\<close>\<close>
  | TempUrl string string           \<comment> \<open>the fallback resolver and its query\<close>

record song_info =
  info_id :: nat
  info_name :: string
  artists :: "string list"
  info_duration :: nat

text \<open>\<open>res.data.result.songs\<close> is \<open>None\<close> when the field is absent; a request that is
  rejected, or a payload without \<open>result\<close>, raises.\<close>

datatype search_resp = SearchRaises error | SearchResult "song_info list option"

record song_detail =
  d_id :: nat
  d_name :: string
  picUrl :: string
  ar :: "string list"

datatype detail_resp = DetailRaises error | DetailResult "song_detail list"

record profile =
  userId :: nat

text \<open>The answer of \<open>/login/status\<close>: the request is rejected, the payload has no
  \<open>data.data\<close>, or it carries \<open>data.data.profile\<close> (\<open>None\<close> is \<open>null\<close>).\<close>

datatype status_resp = StatusRequestFails | StatusMalformed | StatusResult "profile option"

record url_entry =
  entry_url :: "string option"
  level :: "string option"
  size_bytes :: "nat option"
  entry_type :: "string option"

text \<open>The answer of \<open>/song/url/v1\<close>; \<open>UrlResult x\<close> carries \<open>resp.data.data?.[0]\<close>.\<close>

datatype url_resp = UrlRequestFails | UrlMalformed | UrlResult "url_entry option"

text \<open>The fallback resolver answers with \<open>music_url\<close> and a quality label.\<close>

datatype temp_resp = TempRequestFails | TempResult "string option" "string option"

record cloud_entry =
  songId :: nat
  ce_songName :: string
  artist :: "string option"

datatype page_resp = PageFails | Page "cloud_entry list" bool

text \<open>The answer of \<open>POST /cloud\<close>: \<open>res.data.code\<close> and \<open>res.data.privateCloud.songId\<close>
  (\<open>None\<close> when \<open>privateCloud\<close> is absent).\<close>

datatype upload_resp = UploadRequestFails | UploadResult nat "nat option"

text \<open>
  The collaborators outside this file. The remote services answer as functions of the
  request. \<open>cloud_pages\<close> is the script of answers to the successive pages of
  \<open>/user/cloud?limit=100&offset=\<close>; a request past the end of the script fails.
  \<open>wiki_api\<close> gives the tags that the callback of \<open>neteasePlay\<close> extracts from the wiki
  payload, or the exception raised by the request or by the traversal.
  \<open>sendMusicCard\<close> and \<open>uploadGroupFile_ok\<close> say whether the host call returns
  (\<open>True\<close>) or throws. \<open>downloadAudio\<close> gives the saved path, or \<open>None\<close> when it rejects.
  \<open>stat_api path k\<close> is what poll \<open>k\<close> of the watcher sees at \<open>path\<close>. \<open>cloud_post_api\<close>
  takes the number of the upload attempt. \<open>formatTime\<close> is the helper of
  \<open>utils/other.js\<close>, and \<open>retries\<close> the number of retries of \<open>retryAxiosReq\<close>.
\<close>

record env =
  search_api :: "url \<Rightarrow> search_resp"
  detail_api :: "url \<Rightarrow> detail_resp"
  status_api :: "url \<Rightarrow> string \<Rightarrow> status_resp"
  song_url_api :: "url \<Rightarrow> string \<Rightarrow> url_resp"
  wiki_api :: "url \<Rightarrow> string \<Rightarrow> error + string list"
  temp_api :: "url \<Rightarrow> temp_resp"
  cloud_pages :: "string \<Rightarrow> string \<Rightarrow> page_resp list"
  cloud_info_api :: "url \<Rightarrow> string \<Rightarrow> (nat \<times> nat \<times> nat) option"
  cloud_post_api :: "url \<Rightarrow> string \<Rightarrow> string \<Rightarrow> nat \<Rightarrow> upload_resp"
  sendMusicCard :: "nat \<Rightarrow> bool"
  downloadAudio :: "string option \<Rightarrow> string \<Rightarrow> string \<Rightarrow> string option \<Rightarrow> string option"
  uploadGroupFile_ok :: "string \<Rightarrow> bool"
  stat_api :: "string \<Rightarrow> nat \<Rightarrow> obs"
  formatTime :: "nat \<Rightarrow> string"
  retries :: nat

section \<open>JavaScript helpers\<close>

text \<open>\<open>s.includes(k)\<close>.\<close>

fun js_includes :: "string \<Rightarrow> string \<Rightarrow> bool" where
  "js_includes [] k = (k = [])"
| "js_includes (c # s) k = (take (length k) (c # s) = k \<or> js_includes s k)"

text \<open>\<open>xs.findIndex(P)\<close>; \<open>None\<close> is \<open>-1\<close>.\<close>

fun findIndex :: "('a \<Rightarrow> bool) \<Rightarrow> 'a list \<Rightarrow> nat option" where
  "findIndex P [] = None"
| "findIndex P (x # xs) = (if P x then Some 0 else map_option Suc (findIndex P xs))"

text \<open>\<open>xs[i]\<close> for a number \<open>i\<close>; \<open>None\<close> is \<open>undefined\<close>.\<close>

definition nth_opt :: "'a list \<Rightarrow> int \<Rightarrow> 'a option" where
  "nth_opt xs i = (if 0 \<le> i \<and> i < int (length xs) then Some (xs ! nat i) else None)"

text \<open>A value inside string concatenation or a template literal.\<close>

definition js_str :: "string option \<Rightarrow> string" where
  "js_str x = (case x of None \<Rightarrow> ''undefined'' | Some v \<Rightarrow> v)"

text \<open>A number inside a template literal: its decimal digits.\<close>

definition digit :: "nat \<Rightarrow> char" where
  "digit d = char_of (d + 48)"

function string_of_nat :: "nat \<Rightarrow> string" where
  "string_of_nat n =
     (if 10 \<le> n then string_of_nat (n div 10) @ [digit (n mod 10)] else [digit n])"
  by pat_completeness auto
termination
  by (relation "measure (\<lambda>n. n)") auto

declare string_of_nat.simps [simp del]

text \<open>\<open>title.replace("-", " ")\<close>: the first occurrence only.\<close>

fun replace_dash :: "string \<Rightarrow> string" where
  "replace_dash [] = []"
| "replace_dash (c # cs) = (if c = CHR ''-'' then CHR '' '' # cs else c # replace_dash cs)"

text \<open>The UTF-8 bytes of the label that marks a personal-library track, and of the
  default singer name.\<close>

definition CLOUD_LABEL :: string where
  "CLOUD_LABEL = [CHR 0xE4, CHR 0xBA, CHR 0x91, CHR 0xE7, CHR 0x9B, CHR 0x98]"

definition DEFAULT_SINGER :: string where
  "DEFAULT_SINGER = [CHR 0xE5, CHR 0x96, CHR 0xB5, CHR 0xE5, CHR 0x96, CHR 0xB5, CHR 0x7E]"

text \<open>The cookies chosen in the constructor.\<close>

definition neteaseSongCookie :: "toolsConfig \<Rightarrow> string" where
  "neteaseSongCookie cfg = neteaseCookie cfg"

definition neteaseCloudCookie :: "toolsConfig \<Rightarrow> string" where
  "neteaseCloudCookie cfg =
     (if neteaseCloudCookie_cfg cfg \<noteq> [] then neteaseCloudCookie_cfg cfg else neteaseCookie cfg)"

text \<open>\<open>e.group_id\<close> where the code tests it for truth: 0 counts as absent.\<close>

definition group_of :: "event \<Rightarrow> nat option" where
  "group_of e = (case e_group_id e of None \<Rightarrow> None | Some g \<Rightarrow> if g = 0 then None else Some g)"

definition getCurDownloadPath :: "toolsConfig \<Rightarrow> event \<Rightarrow> string" where
  "getCurDownloadPath cfg e =
     defaultPath cfg @ string_of_nat (case group_of e of Some g \<Rightarrow> g | None \<Rightarrow> user_id e)"

text \<open>Modelled from the spec: \<open>checkAndRemoveFile\<close> of \<open>utils/file.js\<close> is not part of
  the sources; it deletes the local file at the path when there is one.\<close>

definition checkAndRemoveFile :: "string \<Rightarrow> state \<Rightarrow> state" where
  "checkAndRemoveFile path s = s\<lparr>files := files s - {path}\<rparr>"

section \<open>Personal Library Cache\<close>

definition cloud_song_of :: "cloud_entry \<Rightarrow> cloud_song" where
  "cloud_song_of x =
     \<lparr> c_songName = ce_songName x, c_id = songId x,
       c_singerName = (case artist x of None \<Rightarrow> DEFAULT_SINGER
                       | Some a \<Rightarrow> if a = [] then DEFAULT_SINGER else a),
       c_duration = CLOUD_LABEL \<rparr>"

text \<open>The \<open>while (true)\<close> loop of \<open>getCloudSong\<close> over the script of page answers: a
  failed page is caught and ends the loop, as does a page without \<open>hasMore\<close>.\<close>

fun fetchCloud :: "page_resp list \<Rightarrow> cloud_song list \<Rightarrow> cloud_song list" where
  "fetchCloud [] songList = songList"
| "fetchCloud (PageFails # rest) songList = songList"
| "fetchCloud (Page songs hasMore # rest) songList =
     (if \<not> hasMore then songList @ map cloud_song_of songs
      else fetchCloud rest (songList @ map cloud_song_of songs))"

definition getCloudSong :: "env \<Rightarrow> toolsConfig \<Rightarrow> bool \<Rightarrow> state \<Rightarrow> cloud_song list \<times> state" where
  "getCloudSong E cfg cloudUpdate s =
     (let songList = (case REDIS_YUNZAI_CLOUDSONGLIST s of None \<Rightarrow> [] | Some l \<Rightarrow> l)
      in if songList = [] \<or> cloudUpdate then
           (let (api, s1) = pickApi cfg s;
                songList' = fetchCloud (cloud_pages E api (neteaseCloudCookie cfg)) songList
            in (songList', s1\<lparr>REDIS_YUNZAI_CLOUDSONGLIST := Some songList'\<rparr>))
         else (songList, s))"

definition cleanCloudData :: "state \<Rightarrow> state" where
  "cleanCloudData s = s\<lparr>REDIS_YUNZAI_CLOUDSONGLIST := Some []\<rparr>"

definition myCloud :: "env \<Rightarrow> toolsConfig \<Rightarrow> state \<Rightarrow> (error + unit) \<times> state" where
  "myCloud E cfg s =
     (let (api, s1) = pickApi cfg s
      in case cloud_info_api E (CloudInfoUrl api) (neteaseCloudCookie cfg) of
           None \<Rightarrow> (Inl RequestError, s1)
         | Some (songCount, useSize, cloudSize) \<Rightarrow>
             (Inr (), reply (CloudData songCount useSize cloudSize) s1))"

text \<open>\<open>songCloudUpdate\<close> catches whatever its steps raise.\<close>

definition songCloudUpdate :: "env \<Rightarrow> toolsConfig \<Rightarrow> state \<Rightarrow> state" where
  "songCloudUpdate E cfg s =
     (let s1 = cleanCloudData s;
          s2 = snd (getCloudSong E cfg True s1);
          s3 = reply UpdateOk s2
      in snd (myCloud E cfg s3))"

section \<open>Credential Quality Gate\<close>

datatype cookieType = CloudCookie | SongCookie

text \<open>\<open>checkCooike(statusUrl, cookieType)\<close>. There is no \<open>catch\<close>: a rejected request
  and a payload without \<open>data.data\<close> raise. For the playback credential the account id is
  read from \<open>profile.userId\<close> before the profile is tested.\<close>

definition checkCooike :: "env \<Rightarrow> toolsConfig \<Rightarrow> url \<Rightarrow> cookieType \<Rightarrow> state \<Rightarrow> (error + bool) \<times> state" where
  "checkCooike E cfg statusUrl ct s =
     (let cookie = (if ct = CloudCookie then neteaseCloudCookie cfg else neteaseSongCookie cfg)
      in case status_api E statusUrl cookie of
           StatusRequestFails \<Rightarrow> (Inl RequestError, s)
         | StatusMalformed \<Rightarrow> (Inl TypeError, s)
         | StatusResult userInfo \<Rightarrow>
             (if ct = SongCookie then
                (case userInfo of
                   None \<Rightarrow> (Inl TypeError, s)
                 | Some p \<Rightarrow> (Inr True, s\<lparr>neteaseUserId := Some (userId p)\<rparr>))
              else
                (case userInfo of
                   None \<Rightarrow> (Inr False, s)
                 | Some p \<Rightarrow> (Inr True, s))))"

section \<open>Delivery Orchestrator\<close>

definition translationDict :: "(string \<times> string) list" where
  "translationDict =
     [(''standard'', [CHR 0xE6, CHR 0xA0, CHR 0x87, CHR 0xE5, CHR 0x87, CHR 0x86]),
      (''higher'', [CHR 0xE8, CHR 0xBE, CHR 0x83, CHR 0xE9, CHR 0xAB, CHR 0x98]),
      (''exhigh'', [CHR 0xE6, CHR 0x9E, CHR 0x81, CHR 0xE9, CHR 0xAB, CHR 0x98]),
      (''lossless'', [CHR 0xE6, CHR 0x97, CHR 0xA0, CHR 0xE6, CHR 0x8D, CHR 0x9F]),
      (''hires'', ''Hi-Res''),
      (''jyeffect'', [CHR 0xE9, CHR 0xAB, CHR 0x98, CHR 0xE6, CHR 0xB8, CHR 0x85, CHR 0xE7,
          CHR 0x8E, CHR 0xAF, CHR 0xE7, CHR 0xBB, CHR 0x95, CHR 0xE5, CHR 0xA3, CHR 0xB0]),
      (''sky'', [CHR 0xE6, CHR 0xB2, CHR 0x89, CHR 0xE6, CHR 0xB5, CHR 0xB8, CHR 0xE7,
          CHR 0x8E, CHR 0xAF, CHR 0xE7, CHR 0xBB, CHR 0x95, CHR 0xE5, CHR 0xA3, CHR 0xB0]),
      (''dolby'', [CHR 0xE6, CHR 0x9D, CHR 0x9C, CHR 0xE6, CHR 0xAF, CHR 0x94, CHR 0xE5,
          CHR 0x85, CHR 0xA8, CHR 0xE6, CHR 0x99, CHR 0xAF, CHR 0xE5, CHR 0xA3, CHR 0xB0]),
      (''jymaster'', [CHR 0xE8, CHR 0xB6, CHR 0x85, CHR 0xE6, CHR 0xB8, CHR 0x85, CHR 0xE6,
          CHR 0xAF, CHR 0x8D, CHR 0xE5, CHR 0xB8, CHR 0xA6])]"

definition translateToChinese :: "string option \<Rightarrow> string option" where
  "translateToChinese word =
     (case word of
        None \<Rightarrow> None
      | Some w \<Rightarrow> (case map_of translationDict w of
                     Some t \<Rightarrow> Some t
                   | None \<Rightarrow> Some w))"

text \<open>\<open>musicTempApi(e, musicInfo, title)\<close>: the fallback resolver. It replies with the
  card and returns \<open>music_url\<close>, which may be \<open>undefined\<close>.\<close>

definition musicTempApi :: "env \<Rightarrow> toolsConfig \<Rightarrow> musicInfo \<Rightarrow> string \<Rightarrow> state \<Rightarrow> (error + string option) \<times> state" where
  "musicTempApi E cfg mi title s =
     (case temp_api E (TempUrl (NETEASE_TEMP_API cfg) (replace_dash title)) of
        TempRequestFails \<Rightarrow> (Inl RequestError, s)
      | TempResult music_url label \<Rightarrow>
          (Inr music_url,
           reply (MusicInfoImg (mi\<lparr>mi_size := TempLabel label,
                                   musicType := butlast (musicType mi)\<rparr>)) s))"

text \<open>The first half of the callback of \<open>neteasePlay\<close>, up to the announcement: it
  yields the URL to download, the title and the extension \<open>musicExt\<close> of the resolved
  entry, or the exception that rejects the promise.\<close>

definition announce ::
  "env \<Rightarrow> toolsConfig \<Rightarrow> url \<Rightarrow> url \<Rightarrow> track list \<Rightarrow> int \<Rightarrow> bool \<Rightarrow> bool \<Rightarrow> state
     \<Rightarrow> (error + (string option \<times> string \<times> string option)) \<times> state" where
  "announce E cfg pickSongUrl songWikiUrl songInfo pickNumber isCkExpired isCloudSong s =
     (let cookieToUse = (if isCloudSong then neteaseCloudCookie cfg else neteaseSongCookie cfg)
      in case song_url_api E pickSongUrl cookieToUse of
           UrlRequestFails \<Rightarrow> (Inl RequestError, s)
         | UrlMalformed \<Rightarrow> (Inl TypeError, s)
         | UrlResult ent \<Rightarrow>
             (let url = (case Option.bind ent entry_url of
                           None \<Rightarrow> None
                         | Some u \<Rightarrow> if u = [] then None else Some u);
                  AudioLevel = translateToChinese (Option.bind ent level);
                  AudioSize = Option.bind ent size_bytes
              in case nth_opt songInfo pickNumber of
                   None \<Rightarrow> (Inl TypeError, s)
                 | Some t \<Rightarrow>
                     (let title = js_str (singerName t) @ ''-'' @ songName t
                      in case wiki_api E songWikiUrl cookieToUse of
                           Inl err \<Rightarrow> (Inl err, s)
                         | Inr tags \<Rightarrow>
                             (let typelist = map Some tags @ [AudioLevel];
                                  mi = \<lparr> mi_cover = cover t, mi_songName = songName t,
                                         mi_singerName = singerName t,
                                         mi_size = SizeMB AudioSize, musicType = typelist \<rparr>;
                                  musicExt = Option.bind ent entry_type
                              in if \<not> isCkExpired \<or> url = None then
                                   (case musicTempApi E cfg mi title s of
                                      (Inl err, s1) \<Rightarrow> (Inl err, s1)
                                    | (Inr url', s1) \<Rightarrow> (Inr (url', title, musicExt), s1))
                                 else (Inr (url, title, musicExt),
                                       reply (MusicInfoImg mi) s)))))"

text \<open>Modelled from the spec: \<open>downloadAudio\<close> of \<open>utils/common.js\<close> is not part of the
  sources; it fetches the URL into the requester's directory and resolves with the path
  of the saved file, or rejects. This is the effect of a download that resolves.\<close>

definition saved :: "string \<Rightarrow> state \<Rightarrow> state" where
  "saved path s = s\<lparr>files := insert path (files s)\<rparr>"

text \<open>The second half: the suffix is stored in the module-level variable, the card is
  tried, the file is downloaded, and only when the card failed the file is sent and then
  removed (the \<open>finally\<close> block).\<close>

definition deliver ::
  "env \<Rightarrow> toolsConfig \<Rightarrow> event \<Rightarrow> nat \<Rightarrow> string option \<Rightarrow> string \<Rightarrow> string option \<Rightarrow> state \<Rightarrow> state" where
  "deliver E cfg e sid url title musicExt s =
     (let s1 = s\<lparr>FileSuffix := musicExt\<rparr>;
          cardSentSuccessfully = sendMusicCard E sid;
          s2 = (if cardSentSuccessfully then reply (MusicCard sid) s1 else s1)
      in case downloadAudio E url (getCurDownloadPath cfg e) title musicExt of
           None \<Rightarrow> s2
         | Some path \<Rightarrow>
             (let s3 = saved path s2
              in if \<not> cardSentSuccessfully then
                   (let s4 = (if uploadGroupFile_ok E path then
                                (let s' = reply (GroupFile path) s3
                                 in if musicExt \<noteq> Some ''mp4'' \<and> isSendVocal cfg
                                    then reply (RecordMsg path) s' else s')
                              else s3)
                    in checkAndRemoveFile path s4)
                 else s3))"

text \<open>\<open>neteasePlay\<close>: the result says whether the promise chain was rejected; the
  caller does not wait for it.\<close>

definition neteasePlay ::
  "env \<Rightarrow> toolsConfig \<Rightarrow> event \<Rightarrow> url \<Rightarrow> url \<Rightarrow> track list \<Rightarrow> int \<Rightarrow> bool \<Rightarrow> bool \<Rightarrow> state
     \<Rightarrow> (error + unit) \<times> state" where
  "neteasePlay E cfg e pickSongUrl songWikiUrl songInfo pickNumber isCkExpired isCloudSong s =
     (case announce E cfg pickSongUrl songWikiUrl songInfo pickNumber isCkExpired isCloudSong s of
        (Inl err, s1) \<Rightarrow> (Inl err, s1)
      | (Inr (url, title, musicExt), s1) \<Rightarrow>
          (case nth_opt songInfo pickNumber of
             None \<Rightarrow> (Inl TypeError, s1)
           | Some t \<Rightarrow> (Inr (), deliver E cfg e (song_id t) url title musicExt s1)))"

section \<open>Search pipeline and Song-List Session Store\<close>

text \<open>The filter of \<open>pickSong\<close> over the personal library.\<close>

definition matches :: "string \<Rightarrow> cloud_song \<Rightarrow> bool" where
  "matches songKeyWord c =
     (js_includes (c_songName c) songKeyWord \<or> js_includes (c_singerName c) songKeyWord \<or>
      c_songName c = songKeyWord \<or> c_singerName c = songKeyWord)"

definition track_of_cloud :: "cloud_song \<Rightarrow> track" where
  "track_of_cloud c =
     \<lparr> song_id = c_id c, songName = c_songName c, singerName = Some (c_singerName c),
       duration = c_duration c, cover = None \<rparr>"

definition track_of_info :: "env \<Rightarrow> song_info \<Rightarrow> track" where
  "track_of_info E info =
     \<lparr> song_id = info_id info, songName = info_name info,
       singerName = (case artists info of [] \<Rightarrow> None | a # _ \<Rightarrow> Some a),
       duration = formatTime E (info_duration info), cover = None \<rparr>"

text \<open>The first loop over the answer of \<open>/song/detail\<close>: the cover of every id is
  recorded, and the first entry of the list with that id gets the authoritative title and
  artist.\<close>

definition coverOf :: "song_detail \<Rightarrow> string" where
  "coverOf d = (if js_includes (picUrl d) ''109951169484091680.jpg'' then ''def'' else picUrl d)"

definition correctEntry :: "song_detail \<Rightarrow> track list \<Rightarrow> track list" where
  "correctEntry d dat =
     (case findIndex (\<lambda>item. song_id item = d_id d) dat of
        None \<Rightarrow> dat
      | Some i \<Rightarrow> dat[i := (dat ! i)\<lparr>songName := d_name d,
                       singerName := (case ar d of [] \<Rightarrow> None | a # _ \<Rightarrow> Some a)\<rparr>])"

fun detailLoop :: "song_detail list \<Rightarrow> (nat \<rightharpoonup> string) \<Rightarrow> track list \<Rightarrow> (nat \<rightharpoonup> string) \<times> track list" where
  "detailLoop [] imgList dat = (imgList, dat)"
| "detailLoop (d # ds) imgList dat =
     detailLoop ds (imgList(d_id d \<mapsto> coverOf d)) (correctEntry d dat)"

text \<open>The second loop: a non-empty recorded cover is attached.\<close>

definition setCover :: "(nat \<rightharpoonup> string) \<Rightarrow> track \<Rightarrow> track" where
  "setCover imgList t =
     (case imgList (song_id t) of
        None \<Rightarrow> t
      | Some c \<Rightarrow> if c = [] then t else t\<lparr>cover := Some c\<rparr>)"

definition applyDetails :: "song_detail list \<Rightarrow> track list \<Rightarrow> track list" where
  "applyDetails ds dat =
     (let (imgList, dat') = detailLoop ds Map.empty dat in map (setCover imgList) dat')"

text \<open>\<open>songInfo.push(musicDate)\<close> or \<open>songInfo[saveId] = musicDate\<close>.\<close>

definition saveSession :: "session list \<Rightarrow> nat option \<Rightarrow> session \<Rightarrow> session list" where
  "saveSession songInfo saveId musicDate =
     (case saveId of None \<Rightarrow> songInfo @ [musicDate] | Some i \<Rightarrow> songInfo[i := musicDate])"

datatype ret = RetFalse | RetUndefined

text \<open>The keyword branch of \<open>pickSong\<close>.\<close>

definition pickSong_search ::
  "env \<Rightarrow> toolsConfig \<Rightarrow> string \<Rightarrow> nat \<Rightarrow> string \<Rightarrow> state \<Rightarrow> (error + ret) \<times> state" where
  "pickSong_search E cfg autoSelectNeteaseApi g songKeyWord s =
     (let songInfo = (case REDIS_YUNZAI_SONGINFO s of None \<Rightarrow> [] | Some l \<Rightarrow> l);
          saveId = findIndex (\<lambda>item. group_id item = g) songInfo;
          (cloudSongList, s1) = getCloudSong E cfg False s;
          matchedSongs = filter (matches songKeyWord) cloudSongList;
          songListCount = (if songRequestMaxList cfg \<le> length matchedSongs
                           then songRequestMaxList cfg else length matchedSongs);
          searchCount = songRequestMaxList cfg - songListCount;
          data0 = map track_of_cloud (take songListCount matchedSongs)
      in case search_api E (SearchUrl autoSelectNeteaseApi songKeyWord searchCount) of
           SearchRaises err \<Rightarrow> (Inl err, s1)
         | SearchResult songs \<Rightarrow>
             (if songs \<noteq> None \<or> data0 \<noteq> [] then
                (let data1 = (case songs of
                                None \<Rightarrow> data0
                              | Some l \<Rightarrow> data0 @ map (track_of_info E) l)
                 in case detail_api E (DetailUrl autoSelectNeteaseApi (map song_id data1)) of
                      DetailRaises err \<Rightarrow> (Inl err, s1)
                    | DetailResult ds \<Rightarrow>
                        (let data2 = applyDetails ds data1;
                             musicDate = \<lparr> group_id = g, data = data2 \<rparr>;
                             s2 = s1\<lparr>REDIS_YUNZAI_SONGINFO :=
                                       Some (saveSession songInfo saveId musicDate)\<rparr>
                         in (Inr RetUndefined, reply (PickSongImg data2) s2)))
              else (Inr RetUndefined, reply NotFound s1)))"

text \<open>The short play command. The guard \<open>redisGetKey(...) != []\<close> compares the stored
  value with a fresh array and is always true; the list is then read again, and an
  absent key gives \<open>null\<close>, on which \<open>findIndex\<close> raises.\<close>

definition pickSong_listen ::
  "env \<Rightarrow> toolsConfig \<Rightarrow> event \<Rightarrow> string \<Rightarrow> nat \<Rightarrow> nat \<Rightarrow> state \<Rightarrow> (error + ret) \<times> state" where
  "pickSong_listen E cfg e autoSelectNeteaseApi g n s =
     (let pickNumber = int n - 1
      in case REDIS_YUNZAI_SONGINFO s of
           None \<Rightarrow> (Inl TypeError, s)
         | Some songInfo \<Rightarrow>
             (case findIndex (\<lambda>item. group_id item = g) songInfo of
                None \<Rightarrow> (Inl TypeError, s)
              | Some saveId \<Rightarrow>
                  (case nth_opt (data (songInfo ! saveId)) pickNumber of
                     None \<Rightarrow> (Inl TypeError, s)
                   | Some selectedSong \<Rightarrow>
                       (let songId = song_id selectedSong;
                            pickSongUrl = SongUrl autoSelectNeteaseApi songId
                                            (neteaseCloudAudioQuality cfg);
                            songWikiUrl = WikiUrl autoSelectNeteaseApi songId;
                            statusUrl = StatusUrl autoSelectNeteaseApi;
                            isCloudSong = (duration selectedSong = CLOUD_LABEL)
                        in case checkCooike E cfg statusUrl
                                  (if isCloudSong then CloudCookie else SongCookie) s of
                             (Inl err, s1) \<Rightarrow> (Inl err, s1)
                           | (Inr isCkExpired, s1) \<Rightarrow>
                               (Inr RetUndefined,
                                snd (neteasePlay E cfg e pickSongUrl songWikiUrl
                                       (data (songInfo ! saveId)) pickNumber
                                       isCkExpired isCloudSong s1))))))"

definition pickSong :: "env \<Rightarrow> toolsConfig \<Rightarrow> event \<Rightarrow> state \<Rightarrow> (error + ret) \<times> state" where
  "pickSong E cfg e s =
     (if \<not> useNeteaseSongRequest cfg then (Inr RetFalse, s)
      else
        (let (autoSelectNeteaseApi, s1) = pickApi cfg s
         in case group_of e of
              None \<Rightarrow> (Inr RetUndefined, s1)
            | Some g \<Rightarrow>
                (case msg e of
                   PickSong songKeyWord \<Rightarrow>
                     pickSong_search E cfg autoSelectNeteaseApi g songKeyWord s1
                 | Listen n \<Rightarrow> pickSong_listen E cfg e autoSelectNeteaseApi g n s1
                 | OtherMsg \<Rightarrow> (Inr RetUndefined, s1))))"

text \<open>The session of a conversation, as the store holds it.\<close>

definition session_of :: "nat \<Rightarrow> state \<Rightarrow> session option" where
  "session_of g s =
     (case REDIS_YUNZAI_SONGINFO s of
        None \<Rightarrow> None
      | Some songInfo \<Rightarrow> find (\<lambda>item. group_id item = g) songInfo)"

section \<open>Upload commands\<close>

text \<open>The path that \<open>upLoad\<close> and \<open>uploadCloud\<close> build and wait for.\<close>

definition awaited_path :: "toolsConfig \<Rightarrow> event \<Rightarrow> string \<Rightarrow> string \<Rightarrow> state \<Rightarrow> string" where
  "awaited_path cfg e desc title s =
     getCurDownloadPath cfg e @ ''/'' @ desc @ ''-'' @ title @ ''.'' @ js_str (FileSuffix s)"

definition upLoad :: "env \<Rightarrow> toolsConfig \<Rightarrow> event \<Rightarrow> state \<Rightarrow> (error + unit) \<times> state" where
  "upLoad E cfg e s =
     (case reply_msg e of
        None \<Rightarrow> (Inl TypeError, s)
      | Some shareCard \<Rightarrow>
          (let asid = (case card_id shareCard of None \<Rightarrow> [] | Some i \<Rightarrow> i)
           in case card_title shareCard of
                None \<Rightarrow> (Inl TypeError, s)
              | Some title \<Rightarrow>
                  (case card_desc shareCard of
                     None \<Rightarrow> (Inl TypeError, s)
                   | Some desc \<Rightarrow>
                       (if asid = [] then (Inr (), s)
                        else
                          (let path = awaited_path cfg e desc title s
                           in case waitForFile (stat_api E path) 120 s of
                                (False, s1) \<Rightarrow> (Inr (), s1)
                              | (True, s1) \<Rightarrow>
                                  (if uploadGroupFile_ok E path
                                   then (Inr (), checkAndRemoveFile path
                                                   (reply (GroupFile path) s1))
                                   else (Inr (), s1)))))))"

text \<open>One call of \<open>tryUpload\<close>, the \<open>k\<close>-th attempt: a non-200 answer throws, a
  successful upload starts the refresh of the personal library.\<close>

definition tryUpload :: "env \<Rightarrow> toolsConfig \<Rightarrow> string \<Rightarrow> string \<Rightarrow> nat \<Rightarrow> state \<Rightarrow> (error + unit) \<times> state" where
  "tryUpload E cfg autoSelectNeteaseApi path k s =
     (case cloud_post_api E (CloudPostUrl autoSelectNeteaseApi) (neteaseCloudCookie cfg) path k of
        UploadRequestFails \<Rightarrow> (Inl RequestError, s)
      | UploadResult code sid \<Rightarrow>
          (if code = 200 then
             (case sid of
                None \<Rightarrow> (Inl TypeError, s)
              | Some x \<Rightarrow> (Inr (), songCloudUpdate E cfg s))
           else (Inl UploadError, s)))"

text \<open>Modelled from the spec: \<open>retryAxiosReq\<close> of \<open>utils/common.js\<close>, the shared
  retry primitive, is not part of the sources. It calls the request again after a failed
  attempt, as long as retries are left; once they are exhausted it fails with the error of
  the last attempt.\<close>

fun retryAxiosReq :: "(nat \<Rightarrow> state \<Rightarrow> (error + 'a) \<times> state) \<Rightarrow> nat \<Rightarrow> nat \<Rightarrow> state \<Rightarrow> (error + 'a) \<times> state" where
  "retryAxiosReq requestFunction 0 k s = requestFunction k s"
| "retryAxiosReq requestFunction (Suc r) k s =
     (case requestFunction k s of
        (Inr v, s1) \<Rightarrow> (Inr v, s1)
      | (Inl err, s1) \<Rightarrow> retryAxiosReq requestFunction r (Suc k) s1)"

definition uploadCloud :: "env \<Rightarrow> toolsConfig \<Rightarrow> event \<Rightarrow> state \<Rightarrow> (error + unit) \<times> state" where
  "uploadCloud E cfg e s =
     (let (autoSelectNeteaseApi, s0) = pickApi cfg s
      in case reply_msg e of
           None \<Rightarrow> (Inl TypeError, s0)
         | Some shareCard \<Rightarrow>
             (case card_id shareCard of
                None \<Rightarrow> (Inl TypeError, s0)
              | Some asid \<Rightarrow>
                  (case card_title shareCard of
                     None \<Rightarrow> (Inl TypeError, s0)
                   | Some title \<Rightarrow>
                       (case card_desc shareCard of
                          None \<Rightarrow> (Inl TypeError, s0)
                        | Some desc \<Rightarrow>
                            (if asid = [] then (Inr (), s0)
                             else
                               (let path = awaited_path cfg e desc title s0
                                in case waitForFile (stat_api E path) 120 s0 of
                                     (False, s1) \<Rightarrow> (Inr (), s1)
                                   | (True, s1) \<Rightarrow>
                                       (case retryAxiosReq (tryUpload E cfg autoSelectNeteaseApi path)
                                               (retries E) 0 s1 of
                                          (Inl err, s2) \<Rightarrow> (Inl err, s2)
                                        | (Inr v, s2) \<Rightarrow>
                                            (Inr (), checkAndRemoveFile path s2))))))))"

section \<open>Concrete configurations and environments\<close>

text \<open>An environment in which every remote request fails, nothing can be downloaded and
  the host accepts what it is sent; the concrete runs below override single services.\<close>

definition quiet_env :: env where
  "quiet_env =
     \<lparr> search_api = (\<lambda>u. SearchRaises RequestError),
       detail_api = (\<lambda>u. DetailRaises RequestError),
       status_api = (\<lambda>u c. StatusRequestFails),
       song_url_api = (\<lambda>u c. UrlRequestFails),
       wiki_api = (\<lambda>u c. Inl RequestError),
       temp_api = (\<lambda>u. TempRequestFails),
       cloud_pages = (\<lambda>a c. []),
       cloud_info_api = (\<lambda>u c. None),
       cloud_post_api = (\<lambda>u c p k. UploadRequestFails),
       sendMusicCard = (\<lambda>i. True),
       downloadAudio = (\<lambda>u d t x. None),
       uploadGroupFile_ok = (\<lambda>p. True),
       stat_api = (\<lambda>p k. Absent),
       formatTime = (\<lambda>d. ''03:20''),
       retries = 3 \<rparr>"

definition test_cfg :: toolsConfig where
  "test_cfg =
     \<lparr> useNeteaseSongRequest = True, songRequestMaxList = 5, useLocalNeteaseAPI = False,
       neteaseCloudAPIServer = ''http://localhost:3000'', neteaseCloudAudioQuality = ''exhigh'',
       neteaseCookie = ''MUSIC_U=a'', neteaseCloudCookie_cfg = ''MUSIC_U=b'', isSendVocal = False,
       defaultPath = ''./data/rcmp4/'', NETEASE_SONG_DOWNLOAD = ''https://oversea.example'',
       NETEASE_API_CN = ''https://cn.example'', NETEASE_TEMP_API = ''https://temp.example'' \<rparr>"

definition test_event :: "command \<Rightarrow> event" where
  "test_event c = \<lparr> e_group_id = Some 7, user_id = 1, msg = c, reply_msg = None \<rparr>"

text \<open>A login-status endpoint with a fixed answer.\<close>

definition status_env :: "status_resp \<Rightarrow> env" where
  "status_env r = quiet_env\<lparr>status_api := (\<lambda>u c. r)\<rparr>"

text \<open>A catalog that answers every search with the given \<open>songs\<close> field and every
  detail lookup with the given answer; a state whose personal library holds one track.\<close>

definition catalog_env :: "song_info list option \<Rightarrow> detail_resp \<Rightarrow> env" where
  "catalog_env songs dr =
     quiet_env\<lparr>search_api := (\<lambda>u. SearchResult songs), detail_api := (\<lambda>u. dr)\<rparr>"

definition library_state :: state where
  "library_state =
     init_state\<lparr>REDIS_YUNZAI_CLOUDSONGLIST :=
       Some [\<lparr> c_songName = ''Courage'', c_id = 3, c_singerName = ''Fish Leong'',
               c_duration = CLOUD_LABEL \<rparr>]\<rparr>"

definition catalog_song :: song_info where
  "catalog_song =
     \<lparr> info_id = 11, info_name = ''Courage (Live)'', artists = [''Fish Leong''],
       info_duration = 200000 \<rparr>"

definition one_track_state :: state where
  "one_track_state =
     init_state\<lparr>REDIS_YUNZAI_SONGINFO :=
       Some [\<lparr> group_id = 7,
               data = [\<lparr> song_id = 11, songName = ''Courage (Live)'',
                         singerName = Some ''Fish Leong'', duration = ''03:20'',
                         cover = None \<rparr>] \<rparr>]\<rparr>"

text \<open>A delivery in which the catalog resolves the track with extension \<open>mp3\<close>, the
  wiki lookup answers and the download succeeds; the host accepts or refuses the card.\<close>

definition mp3_entry :: url_entry where
  "mp3_entry =
     \<lparr> entry_url = Some ''https://m.example/11.mp3'', level = Some ''exhigh'',
       size_bytes = Some 8000000, entry_type = Some ''mp3'' \<rparr>"

definition play_env :: "bool \<Rightarrow> env" where
  "play_env cardOk =
     quiet_env\<lparr>song_url_api := (\<lambda>u c. UrlResult (Some mp3_entry)),
               wiki_api := (\<lambda>u c. Inr [''Pop'']),
               downloadAudio := (\<lambda>u d t x. Some (d @ ''/'' @ t @ ''.'' @ js_str x)),
               sendMusicCard := (\<lambda>i. cardOk)\<rparr>"

definition one_track :: track where
  "one_track =
     \<lparr> song_id = 11, songName = ''Courage (Live)'', singerName = Some ''Fish Leong'',
       duration = ''03:20'', cover = None \<rparr>"

text \<open>An upload command that replies to the share card of that track, a state in which
  the awaited file is on disk, and a cloud endpoint that refuses the first \<open>n\<close> attempts
  and accepts the later ones.\<close>

definition upload_event :: event where
  "upload_event =
     \<lparr> e_group_id = Some 7, user_id = 1, msg = OtherMsg,
       reply_msg = Some \<lparr> card_id = Some ''11'', card_title = Some ''Courage (Live)'',
                          card_desc = Some ''Fish Leong'' \<rparr> \<rparr>"

definition flac_path :: string where
  "flac_path = awaited_path test_cfg upload_event ''Fish Leong'' ''Courage (Live)'' init_state"

definition downloaded_state :: state where
  "downloaded_state = init_state\<lparr>files := {flac_path}\<rparr>"

definition upload_env :: "nat \<Rightarrow> env" where
  "upload_env n =
     quiet_env\<lparr>stat_api := (\<lambda>p k. Size 5),
               cloud_post_api := (\<lambda>u c p k. if k < n then UploadResult 500 None
                                            else UploadResult 200 (Some 99))\<rparr>"

text \<open>A delivery in which the catalog resolves the track but the wiki lookup fails.\<close>

definition wiki_down_env :: env where
  "wiki_down_env = quiet_env\<lparr>song_url_api := (\<lambda>u c. UrlResult (Some mp3_entry))\<rparr>"

text \<open>The state after the successful delivery of the track with its card.\<close>

definition delivered_state :: state where
  "delivered_state =
     snd (neteasePlay (play_env True) test_cfg (test_event (Listen 1))
            (SongUrl ''https://oversea.example'' 11 ''exhigh'')
            (WikiUrl ''https://oversea.example'' 11) [one_track] 0 True False init_state)"

section \<open>Properties\<close>

subsection \<open>File-Readiness Watcher\<close>

lemma checksOf_alt:
  "checksOf ob a =
     (if 2 \<le> a \<and> (\<exists>c>0. ob (a - 1) = Size c \<and> ob (a - 2) = Size c) then 1 else 0)"
  by (auto simp: checksOf_def split: obs.splits)

lemma checksOf_1:
  "(checksOf ob a = 1) = (2 \<le> a \<and> (\<exists>c>0. ob (a - 1) = Size c \<and> ob (a - 2) = Size c))"
  by (simp add: checksOf_alt)

lemma lastOf_Suc: "lastOf ob (Suc a) = (case ob a of Size c \<Rightarrow> int c | _ \<Rightarrow> - 1)"
  by (simp add: lastOf_def)

lemma lastOf_eq: "0 < c \<Longrightarrow> (int c = lastOf ob a) = (0 < a \<and> ob (a - 1) = Size c)"
  by (auto simp: lastOf_def split: obs.splits)

lemma waitLoop_inv:
  assumes "\<forall>i. i + 2 < a \<longrightarrow> \<not> stable_at ob i"
  shows "fst (waitLoop ob n a (lastOf ob a) (checksOf ob a)) = (\<exists>i. i + 2 < n \<and> stable_at ob i)"
  using assms
proof (induction "n - a" arbitrary: a)
  case 0
  then have "n \<le> a" by simp
  with 0 show ?case
    by (auto simp: waitLoop.simps [of _ n a])
next
  case (Suc k)
  then have lt: "a < n" and k: "k = n - Suc a" by auto
  note IH = Suc.hyps(1) [OF k]
  show ?case
  proof (cases "ob a")
    case Absent
    have nst: "\<forall>i. i + 2 < Suc a \<longrightarrow> \<not> stable_at ob i"
      using Suc.prems Absent by (auto simp: stable_at_def less_Suc_eq split: obs.splits)
    have "checksOf ob (Suc a) = 0" using Absent by (auto simp: checksOf_alt)
    with IH [OF nst] lt Absent show ?thesis
      by (simp add: waitLoop.simps [of _ n a] lastOf_Suc)
  next
    case StatFails
    have nst: "\<forall>i. i + 2 < Suc a \<longrightarrow> \<not> stable_at ob i"
      using Suc.prems StatFails by (auto simp: stable_at_def less_Suc_eq split: obs.splits)
    have "checksOf ob (Suc a) = 0" using StatFails by (auto simp: checksOf_alt)
    with IH [OF nst] lt StatFails show ?thesis
      by (simp add: waitLoop.simps [of _ n a] lastOf_Suc)
  next
    case (Size c)
    show ?thesis
    proof (cases "0 < c \<and> int c = lastOf ob a")
      case True
      then have c: "0 < c" and a: "0 < a" and prev: "ob (a - 1) = Size c"
        by (auto simp: lastOf_eq)
      show ?thesis
      proof (cases "checksOf ob a = 1")
        case True
        then obtain c' where "2 \<le> a" and "ob (a - 1) = Size c'" and "ob (a - 2) = Size c'"
          unfolding checksOf_1 by blast
        with prev have "2 \<le> a" and "ob (a - 2) = Size c" by simp_all
        then have "stable_at ob (a - 2)" "(a - 2) + 2 < n"
          using c prev Size lt by (auto simp: stable_at_def numeral_2_eq_2 Suc_diff_Suc)
        then have "\<exists>i. i + 2 < n \<and> stable_at ob i" by blast
        moreover have "int c = lastOf ob a" using c prev a by (simp add: lastOf_eq)
        ultimately show ?thesis using True c lt Size
          by (subst waitLoop.simps) simp
      next
        case False
        then have nopair: "\<not> (2 \<le> a \<and> ob (a - 2) = Size c)"
          unfolding checksOf_1 using c prev by blast
        from False have z: "checksOf ob a = 0" by (simp add: checksOf_alt split: if_splits)
        have nst: "\<forall>i. i + 2 < Suc a \<longrightarrow> \<not> stable_at ob i"
        proof (intro allI impI)
          fix i assume "i + 2 < Suc a"
          then consider "i + 2 < a" | "i + 2 = a" by linarith
          then show "\<not> stable_at ob i"
          proof cases
            case 1 then show ?thesis using Suc.prems by blast
          next
            case 2
            then have "i = a - 2" "i + 1 = a - 1" "2 \<le> a" by auto
            with nopair prev show ?thesis
              by (auto simp: stable_at_def split: obs.splits)
          qed
        qed
        have "checksOf ob (Suc a) = 1"
          using c a prev Size by (auto simp: checksOf_alt)
        with IH [OF nst] lt Size c prev a z show ?thesis
          by (simp add: waitLoop.simps [of _ n a] lastOf_Suc lastOf_eq)
      qed
    next
      case False
      then have nopair: "\<not> (0 < c \<and> 0 < a \<and> ob (a - 1) = Size c)"
        by (auto simp: lastOf_eq)
      have nst: "\<forall>i. i + 2 < Suc a \<longrightarrow> \<not> stable_at ob i"
      proof (intro allI impI)
        fix i assume "i + 2 < Suc a"
        then consider "i + 2 < a" | "i + 2 = a" by linarith
        then show "\<not> stable_at ob i"
        proof cases
          case 1 then show ?thesis using Suc.prems by blast
        next
          case 2
          then have "i + 1 = a - 1" "0 < a" by auto
          with nopair Size 2 show ?thesis
            by (auto simp: stable_at_def split: obs.splits)
        qed
      qed
      have "checksOf ob (Suc a) = 0"
        using nopair Size by (auto simp: checksOf_alt)
      with IH [OF nst] lt Size False show ?thesis
        by (auto simp add: waitLoop.simps [of _ n a] lastOf_Suc)
    qed
  qed
qed

lemma never_appears_loop:
  "waitLoop never_appears n a l c = (False, max a n)"
proof (induction "n - a" arbitrary: a l c)
  case 0
  then show ?case by (simp add: waitLoop.simps [of _ n a] max_def)
next
  case (Suc k)
  then have lt: "a < n" and k: "k = n - (a + 1)" by auto
  show ?case
    using Suc.hyps(1) [OF k] lt
    by (simp add: waitLoop.simps [of _ n a] never_appears_def max_def)
qed

lemma two_stable_reads_iff:
  "two_stable_reads ob n =
     (\<exists>k. k < n \<and> 0 < k \<and> (\<exists>c>0. ob k = Size c \<and> ob (k - 1) = Size c))"
proof (induction n)
  case 0
  show ?case by simp
next
  case (Suc n)
  have "(\<exists>k. k < Suc n \<and> 0 < k \<and> (\<exists>c>0. ob k = Size c \<and> ob (k - 1) = Size c)) =
        ((\<exists>k. k < n \<and> 0 < k \<and> (\<exists>c>0. ob k = Size c \<and> ob (k - 1) = Size c)) \<or>
         (0 < n \<and> (\<exists>c>0. ob n = Size c \<and> ob (n - 1) = Size c)))"
    by (auto simp: less_Suc_eq)
  with Suc show ?case
    by (auto split: obs.splits)
qed

text \<open>
  Claim C3, as stated: the watcher returns true if and only if two consecutive
  observations within the window have equal positive sizes. It fails: a file seen twice
  with size 5 and then gone satisfies the stated condition within the default window, and
  the watcher times out.
\<close>

theorem C3_two_reads_counterexample:
  "two_stable_reads (obs_of_list [Size 5, Size 5]) 120 \<and>
   \<not> fst (waitForFile_run (obs_of_list [Size 5, Size 5]) 120)"
proof -
  have "(1::nat) < 120 \<and> 0 < (1::nat) \<and> (\<exists>c>0. obs_of_list [Size 5, Size 5] 1 = Size c \<and>
      obs_of_list [Size 5, Size 5] (1 - 1) = Size c)"
    by (simp add: obs_of_list_def)
  then have a: "two_stable_reads (obs_of_list [Size 5, Size 5]) 120"
    unfolding two_stable_reads_iff by (rule exI)
  have "\<not> stable_at (obs_of_list [Size 5, Size 5]) i" for i
    by (simp add: stable_at_def obs_of_list_def split: obs.splits)
  then have b: "\<not> fst (waitForFile_run (obs_of_list [Size 5, Size 5]) 120)"
    using waitLoop_inv [of 0 "obs_of_list [Size 5, Size 5]" 120]
    by (simp add: waitForFile_run_def lastOf_def checksOf_alt)
  from a b show ?thesis ..
qed

text \<open>
  Claim C3, amended: the watcher returns true if and only if, among the first
  \<open>timeoutSeconds\<close> polls, three consecutive ones see the file with one and the same
  positive size (\<open>requiredStableChecks = 2\<close> consecutive stable checks).
\<close>

theorem C3_waitForFile_iff_three_stable_reads:
  "fst (waitForFile_run ob timeoutSeconds) = (\<exists>i. i + 2 < timeoutSeconds \<and> stable_at ob i)"
  using waitLoop_inv [of 0 ob timeoutSeconds]
  by (simp add: waitForFile_run_def lastOf_def checksOf_alt)

theorem C3_waitForFile_iff_three_stable_reads_witness:
  "fst (waitForFile_run (obs_of_list [Size 5, Size 5, Size 5]) 120)"
proof -
  have "(0::nat) + 2 < 120 \<and> stable_at (obs_of_list [Size 5, Size 5, Size 5]) 0"
    by (simp add: stable_at_def obs_of_list_def)
  then have "\<exists>i. i + 2 < (120::nat) \<and> stable_at (obs_of_list [Size 5, Size 5, Size 5]) i"
    by (rule exI)
  then show ?thesis
    using C3_waitForFile_iff_three_stable_reads [of "obs_of_list [Size 5, Size 5, Size 5]" 120]
    by simp
qed

text \<open>
  Claim C4: for a file that never appears the watcher returns false after
  \<open>timeoutSeconds / 0.5\<close> polling attempts, 240 at the default timeout of 120 seconds.
  The code takes \<open>maxAttempts = timeoutSeconds\<close>: at the default it gives up after 120
  polls of 500ms each, that is after 60 seconds.
\<close>

theorem C4_never_appears_polls_120:
  "waitForFile_run never_appears timeoutSeconds = (False, timeoutSeconds) \<and>
   waitForFile_run never_appears 120 = (False, 120)"
  by (simp add: waitForFile_run_def never_appears_loop)

subsection \<open>Region Selector\<close>

text \<open>
  Claim C1: on the first call with no persisted flag the selector reports overseas and
  persists that same decision, so that later calls report overseas too. The code returns
  \<open>true\<close> on the first call and stores \<open>os: false\<close>: the second call reports domestic.
\<close>

theorem C1_first_call_disagrees_with_persisted_flag:
  "fst (isOverseasServer init_state) = True \<and>
   REDIS_YUNZAI_ISOVERSEA (snd (isOverseasServer init_state)) = Some False \<and>
   fst (isOverseasServer (snd (isOverseasServer init_state))) = False"
  by (simp add: isOverseasServer_def init_state_def)

subsection \<open>Frame lemmas and list helpers\<close>

lemma pickApi_frame:
  "REDIS_YUNZAI_SONGINFO (snd (pickApi cfg s)) = REDIS_YUNZAI_SONGINFO s"
  "REDIS_YUNZAI_CLOUDSONGLIST (snd (pickApi cfg s)) = REDIS_YUNZAI_CLOUDSONGLIST s"
  "FileSuffix (snd (pickApi cfg s)) = FileSuffix s"
  "files (snd (pickApi cfg s)) = files s"
  "outbox (snd (pickApi cfg s)) = outbox s"
  "neteaseUserId (snd (pickApi cfg s)) = neteaseUserId s"
  by (simp_all add: pickApi_def isOverseasServer_def split: option.splits)

lemma getCloudSong_frame:
  "REDIS_YUNZAI_SONGINFO (snd (getCloudSong E cfg u s)) = REDIS_YUNZAI_SONGINFO s"
  "FileSuffix (snd (getCloudSong E cfg u s)) = FileSuffix s"
  "files (snd (getCloudSong E cfg u s)) = files s"
  "outbox (snd (getCloudSong E cfg u s)) = outbox s"
  by (simp_all add: getCloudSong_def Let_def pickApi_frame split: prod.splits)
    (metis pickApi_frame snd_conv)+

lemma findIndex_None: "(findIndex P xs = None) = (find P xs = None)"
  by (induction xs) auto

lemma findIndex_Some: "findIndex P xs = Some i \<Longrightarrow> find P xs = Some (xs ! i) \<and> i < length xs"
  by (induction xs arbitrary: i) (auto split: if_splits)

lemma find_update_first:
  "findIndex P xs = Some i \<Longrightarrow> P m \<Longrightarrow> find P (xs[i := m]) = Some m"
  by (induction xs arbitrary: i) (auto split: if_splits)

lemma find_append_new:
  "find P xs = None \<Longrightarrow> P m \<Longrightarrow> find P (xs @ [m]) = Some m"
  by (induction xs) (auto split: if_splits)

lemma find_saveSession:
  "P m \<Longrightarrow> find P (saveSession xs (findIndex P xs) m) = Some m"
proof (cases "findIndex P xs")
  case None
  assume "P m"
  moreover from None have "find P xs = None" by (simp add: findIndex_None)
  ultimately show ?thesis using None by (simp add: saveSession_def find_append_new)
next
  case (Some i)
  assume "P m"
  with Some show ?thesis by (simp add: saveSession_def find_update_first)
qed

lemma correctEntry_keeps:
  "length (correctEntry d dat) = length dat"
  "map song_id (correctEntry d dat) = map song_id dat"
  "map duration (correctEntry d dat) = map duration dat"
  by (auto simp: correctEntry_def map_update list_update_same_conv
      dest!: findIndex_Some [where P = "\<lambda>item. song_id item = d_id d"] split: option.splits)

lemma detailLoop_keeps:
  "length (snd (detailLoop ds img dat)) = length dat"
  "map song_id (snd (detailLoop ds img dat)) = map song_id dat"
  "map duration (snd (detailLoop ds img dat)) = map duration dat"
  by (induction ds img dat rule: detailLoop.induct) (simp_all add: correctEntry_keeps)

lemma setCover_keeps:
  "song_id (setCover img t) = song_id t" "duration (setCover img t) = duration t"
  by (simp_all add: setCover_def split: option.splits)

lemma applyDetails_keeps:
  "length (applyDetails ds dat) = length dat"
  "map song_id (applyDetails ds dat) = map song_id dat"
  "map duration (applyDetails ds dat) = map duration dat"
  using detailLoop_keeps [of ds Map.empty dat]
  by (auto simp add: applyDetails_def setCover_keeps comp_def split: prod.splits)


lemma track_simps:
  "song_id (track_of_cloud c) = c_id c" "duration (track_of_cloud c) = c_duration c"
  "song_id (track_of_info E i) = info_id i"
  "duration (track_of_info E i) = formatTime E (info_duration i)"
  by (simp_all add: track_of_cloud_def track_of_info_def)

subsection \<open>Credential Quality Gate\<close>

text \<open>
  Claim C6, as stated: the probe returns true only for a non-empty profile, and returns
  false, without raising, whenever the transport fails, the payload is malformed or the
  profile is empty. It fails: \<open>checkCooike\<close> has no \<open>catch\<close>, and a rejected request
  rejects the probe.
\<close>

theorem C6_transport_failure_counterexample:
  "status_api quiet_env (StatusUrl ''https://cn.example'') (neteaseCloudCookie test_cfg)
     = StatusRequestFails \<and>
   fst (checkCooike quiet_env test_cfg (StatusUrl ''https://cn.example'') CloudCookie init_state)
     = Inl RequestError"
  by (simp add: checkCooike_def quiet_env_def)

text \<open>
  Claim C6, amended: the probe returns true only when the login-status answer carries a
  profile; a library-scoped probe whose answer has a null profile returns false; a probe
  whose request is rejected or whose payload is malformed raises that error.
\<close>

theorem C6_checkCooike_outcomes:
  "(fst (checkCooike E cfg statusUrl ct s) = Inr True \<longrightarrow>
      (\<exists>p. status_api E statusUrl (if ct = CloudCookie then neteaseCloudCookie cfg else neteaseSongCookie cfg) = StatusResult (Some p))) \<and>
   (status_api E statusUrl (neteaseCloudCookie cfg) = StatusResult None \<longrightarrow>
      fst (checkCooike E cfg statusUrl CloudCookie s) = Inr False) \<and>
   (status_api E statusUrl (if ct = CloudCookie then neteaseCloudCookie cfg else neteaseSongCookie cfg) = StatusRequestFails \<longrightarrow>
      fst (checkCooike E cfg statusUrl ct s) = Inl RequestError) \<and>
   (status_api E statusUrl (if ct = CloudCookie then neteaseCloudCookie cfg else neteaseSongCookie cfg) = StatusMalformed \<longrightarrow>
      fst (checkCooike E cfg statusUrl ct s) = Inl TypeError)"
  by (cases ct) (auto simp: checkCooike_def split: status_resp.splits option.splits)

theorem C6_checkCooike_outcomes_witness:
  "fst (checkCooike (status_env (StatusResult (Some \<lparr> userId = 42 \<rparr>))) test_cfg
          (StatusUrl ''a'') SongCookie init_state) = Inr True \<and>
   fst (checkCooike (status_env (StatusResult None)) test_cfg
          (StatusUrl ''a'') CloudCookie init_state) = Inr False \<and>
   fst (checkCooike (status_env StatusRequestFails) test_cfg (StatusUrl ''a'') SongCookie init_state) = Inl RequestError \<and>
   fst (checkCooike (status_env StatusMalformed) test_cfg
          (StatusUrl ''a'') SongCookie init_state) = Inl TypeError"
proof -
  have t: "fst (checkCooike (status_env (StatusResult (Some \<lparr> userId = 42 \<rparr>)))
          test_cfg (StatusUrl ''a'') SongCookie init_state) = Inr True"
    by (simp add: checkCooike_def status_env_def)
  show ?thesis
    using t
      C6_checkCooike_outcomes [of "status_env (StatusResult (Some \<lparr> userId = 42 \<rparr>))"
        test_cfg "StatusUrl ''a''" SongCookie init_state]
      C6_checkCooike_outcomes [of "status_env (StatusResult None)"
        test_cfg "StatusUrl ''a''" CloudCookie init_state]
      C6_checkCooike_outcomes [of "status_env StatusRequestFails" test_cfg "StatusUrl ''a''" SongCookie init_state]
      C6_checkCooike_outcomes [of "status_env StatusMalformed"
        test_cfg "StatusUrl ''a''" SongCookie init_state]
    by (simp add: status_env_def)
qed

subsection \<open>Search pipeline\<close>

lemma pickSong_search_found:
  assumes cl: "getCloudSong E cfg False s = (cl, s1)"
    and matched: "matched = filter (matches kw) cl"
    and k: "k = min (length matched) (songRequestMaxList cfg)"
    and search: "search_api E (SearchUrl api kw (songRequestMaxList cfg - k)) = SearchResult (Some songs)"
    and detail: "detail_api E (DetailUrl api (map c_id (take k matched) @ map info_id songs)) = DetailResult ds"
    and d: "d = applyDetails ds (map track_of_cloud (take k matched) @ map (track_of_info E) songs)"
    and l: "l = (case REDIS_YUNZAI_SONGINFO s of None \<Rightarrow> [] | Some x \<Rightarrow> x)"
  shows "pickSong_search E cfg api g kw s =
     (Inr RetUndefined,
      reply (PickSongImg d)
        (s1\<lparr>REDIS_YUNZAI_SONGINFO :=
              Some (saveSession l (findIndex (\<lambda>item. group_id item = g) l) \<lparr> group_id = g, data = d \<rparr>)\<rparr>))"
proof -
  have kk: "(if songRequestMaxList cfg \<le> length matched then songRequestMaxList cfg else length matched) = k"
    by (simp add: k min_def)
  show ?thesis
    unfolding pickSong_search_def Let_def cl prod.case matched [symmetric] kk search
      search_resp.case
    by (simp add: d l detail comp_def track_simps)
qed

lemma pickSong_search_not_found:
  assumes cl: "getCloudSong E cfg False s = (cl, s1)"
    and matched: "filter (matches kw) cl = []"
    and search: "search_api E (SearchUrl api kw (songRequestMaxList cfg)) = SearchResult None"
  shows "pickSong_search E cfg api g kw s = (Inr RetUndefined, reply NotFound s1)"
proof -
  have z: "(if songRequestMaxList cfg \<le> length ([] :: cloud_song list)
            then songRequestMaxList cfg else length ([] :: cloud_song list)) = 0"
    by simp
  show ?thesis
    unfolding pickSong_search_def Let_def cl prod.case matched z
    using search by simp
qed

text \<open>
  Claim C2, as stated: whenever the personal-library match and the catalog search both
  give no candidates, the user gets the "not found" reply and the session store is
  unchanged. It fails for a catalog answer whose \<open>songs\<close> field is an empty array, which
  is truthy: with an empty detail answer an empty session is stored and an empty list is
  rendered, and with a failing detail lookup the command raises; in neither case is
  "not found" sent. Nor is it sent when the search request itself is rejected: the
  command raises.
\<close>

theorem C2_empty_array_counterexample:
  "filter (matches ''x'')
     (fst (getCloudSong (catalog_env (Some []) (DetailResult [])) test_cfg False
        (snd (pickApi test_cfg init_state)))) = [] \<and>
   search_api (catalog_env (Some []) (DetailResult []))
     (SearchUrl (fst (pickApi test_cfg init_state)) ''x'' 5) = SearchResult (Some []) \<and>
   outbox (snd (pickSong (catalog_env (Some []) (DetailResult [])) test_cfg
     (test_event (PickSong ''x'')) init_state)) = [PickSongImg []] \<and>
   REDIS_YUNZAI_SONGINFO (snd (pickSong (catalog_env (Some []) (DetailResult [])) test_cfg
     (test_event (PickSong ''x'')) init_state)) = Some [\<lparr> group_id = 7, data = [] \<rparr>] \<and>
   REDIS_YUNZAI_SONGINFO init_state = None \<and>
   fst (pickSong (catalog_env (Some []) (DetailRaises TypeError)) test_cfg
     (test_event (PickSong ''x'')) init_state) = Inl TypeError \<and>
   outbox (snd (pickSong (catalog_env (Some []) (DetailRaises TypeError)) test_cfg
     (test_event (PickSong ''x'')) init_state)) = [] \<and>
   fst (pickSong quiet_env test_cfg (test_event (PickSong ''x'')) init_state)
     = Inl RequestError \<and>
   outbox (snd (pickSong quiet_env test_cfg (test_event (PickSong ''x'')) init_state)) = []"
  by (simp add: pickSong_def pickSong_search_def getCloudSong_def pickApi_def isOverseasServer_def
      catalog_env_def quiet_env_def test_cfg_def test_event_def init_state_def group_of_def
      Let_def applyDetails_def saveSession_def reply_def)

text \<open>
  Claim C2, amended: for a keyword search in a group, with the feature enabled, in which
  the personal-library match is empty and the catalog answers without a \<open>songs\<close> field,
  the user receives the single "not found" reply and the session store is unchanged.
\<close>

theorem C2_not_found_keeps_session:
  assumes en: "useNeteaseSongRequest cfg" and g: "group_of e = Some g" and m: "msg e = PickSong kw"
    and cloud: "filter (matches kw) (fst (getCloudSong E cfg False (snd (pickApi cfg s)))) = []"
    and search: "search_api E (SearchUrl (fst (pickApi cfg s)) kw (songRequestMaxList cfg)) = SearchResult None"
  shows "fst (pickSong E cfg e s) = Inr RetUndefined \<and>
         outbox (snd (pickSong E cfg e s)) = outbox s @ [NotFound] \<and>
         REDIS_YUNZAI_SONGINFO (snd (pickSong E cfg e s)) = REDIS_YUNZAI_SONGINFO s"
proof -
  obtain api s1 where p: "pickApi cfg s = (api, s1)" by (cases "pickApi cfg s")
  obtain cl s2 where c: "getCloudSong E cfg False s1 = (cl, s2)" by (cases "getCloudSong E cfg False s1")
  have "pickSong_search E cfg api g kw s1 = (Inr RetUndefined, reply NotFound s2)"
    using cloud search p c by (intro pickSong_search_not_found [OF c]) simp_all
  with en g m p have r: "pickSong E cfg e s = (Inr RetUndefined, reply NotFound s2)"
    by (simp add: pickSong_def)
  have "s2 = snd (getCloudSong E cfg False (snd (pickApi cfg s)))" using p c by simp
  then have "outbox s2 = outbox s" "REDIS_YUNZAI_SONGINFO s2 = REDIS_YUNZAI_SONGINFO s"
    by (simp_all add: getCloudSong_frame pickApi_frame)
  with r show ?thesis by (simp add: reply_def)
qed

theorem C2_not_found_keeps_session_witness:
  "outbox (snd (pickSong (catalog_env None (DetailResult [])) test_cfg
     (test_event (PickSong ''x'')) init_state)) = [NotFound] \<and>
   REDIS_YUNZAI_SONGINFO (snd (pickSong (catalog_env None (DetailResult [])) test_cfg
     (test_event (PickSong ''x'')) init_state)) = None"
  using C2_not_found_keeps_session [of test_cfg "test_event (PickSong ''x'')" 7 "''x''"
      "catalog_env None (DetailResult [])" init_state]
  by (simp add: getCloudSong_def pickApi_def isOverseasServer_def
      catalog_env_def quiet_env_def test_cfg_def test_event_def init_state_def group_of_def Let_def)

lemma session_of_saved:
  "session_of g (reply x (s1\<lparr>REDIS_YUNZAI_SONGINFO :=
      Some (saveSession l (findIndex (\<lambda>item. group_id item = g) l) \<lparr> group_id = g, data = d \<rparr>)\<rparr>))
   = Some \<lparr> group_id = g, data = d \<rparr>"
  by (simp add: session_of_def reply_def find_saveSession)

lemma matches_Courage: "matches ''Courage'' \<lparr> c_songName = ''Courage'', c_id = 3, c_singerName = ''Fish Leong'', c_duration = CLOUD_LABEL \<rparr>"
  by (simp add: matches_def)

text \<open>
  Claim C8, as stated: whenever a search has at least one personal-library match and at
  least one catalog match, the merged list is no longer than the configured maximum. It
  fails: the code asks the catalog for the remaining slots and appends whatever comes
  back. With a maximum of 1 and one library match it asks for 0 songs, and a catalog that
  answers with one song gives a merged list of two.
\<close>

theorem C8_merged_length_counterexample:
  "filter (matches ''Courage'')
     (fst (getCloudSong (catalog_env (Some [catalog_song]) (DetailResult []))
        (test_cfg\<lparr>songRequestMaxList := 1\<rparr>) False
        (snd (pickApi (test_cfg\<lparr>songRequestMaxList := 1\<rparr>) library_state)))) \<noteq> [] \<and>
   search_api (catalog_env (Some [catalog_song]) (DetailResult []))
     (SearchUrl (fst (pickApi (test_cfg\<lparr>songRequestMaxList := 1\<rparr>) library_state)) ''Courage'' 0)
     = SearchResult (Some [catalog_song]) \<and>
   map_option (map song_id \<circ> data)
     (session_of 7 (snd (pickSong (catalog_env (Some [catalog_song]) (DetailResult []))
        (test_cfg\<lparr>songRequestMaxList := 1\<rparr>) (test_event (PickSong ''Courage'')) library_state)))
     = Some [3, 11] \<and>
   songRequestMaxList (test_cfg\<lparr>songRequestMaxList := 1\<rparr>) = 1"
  by (simp add: pickSong_def pickSong_search_def getCloudSong_def pickApi_def isOverseasServer_def
      catalog_env_def quiet_env_def test_cfg_def test_event_def init_state_def library_state_def
      group_of_def Let_def applyDetails_def saveSession_def reply_def matches_Courage
      session_of_def track_of_cloud_def track_of_info_def catalog_song_def setCover_def)

text \<open>
  Claim C8, amended: for a keyword search in a group, with the feature enabled, whose
  catalog answer holds no more songs than the requested limit (the configured maximum
  minus the number of library matches kept) and whose detail lookup succeeds, the stored
  and displayed list is no longer than the configured maximum, and it consists of the
  kept personal-library matches, in order, followed by the catalog songs, in order.
\<close>

theorem C8_merged_list_bounded_and_ordered:
  assumes en: "useNeteaseSongRequest cfg" and g: "group_of e = Some g" and m: "msg e = PickSong kw"
    and matched: "matched = filter (matches kw) (fst (getCloudSong E cfg False (snd (pickApi cfg s))))"
    and k: "k = min (length matched) (songRequestMaxList cfg)"
    and search: "search_api E (SearchUrl (fst (pickApi cfg s)) kw (songRequestMaxList cfg - k)) = SearchResult (Some songs)"
    and limit: "length songs \<le> songRequestMaxList cfg - k"
    and detail: "detail_api E (DetailUrl (fst (pickApi cfg s)) (map c_id (take k matched) @ map info_id songs)) = DetailResult ds"
  shows "\<exists>d. session_of g (snd (pickSong E cfg e s)) = Some \<lparr> group_id = g, data = d \<rparr> \<and>
             last (outbox (snd (pickSong E cfg e s))) = PickSongImg d \<and>
             length d \<le> songRequestMaxList cfg \<and>
             map song_id d = map c_id (take k matched) @ map info_id songs \<and>
             map duration d = map c_duration (take k matched) @ map (\<lambda>i. formatTime E (info_duration i)) songs"
proof -
  obtain api s1 where p: "pickApi cfg s = (api, s1)" by (cases "pickApi cfg s")
  obtain cl s2 where c: "getCloudSong E cfg False s1 = (cl, s2)" by (cases "getCloudSong E cfg False s1")
  define d where "d = applyDetails ds (map track_of_cloud (take k matched) @ map (track_of_info E) songs)"
  define l where "l = (case REDIS_YUNZAI_SONGINFO s1 of None \<Rightarrow> [] | Some x \<Rightarrow> x)"
  have m': "matched = filter (matches kw) cl" using matched p c by simp
  have "pickSong_search E cfg api g kw s1 =
     (Inr RetUndefined,
      reply (PickSongImg d)
        (s2\<lparr>REDIS_YUNZAI_SONGINFO :=
              Some (saveSession l (findIndex (\<lambda>item. group_id item = g) l) \<lparr> group_id = g, data = d \<rparr>)\<rparr>))"
    using search detail p
    by (intro pickSong_search_found [OF c m' k _ _ d_def l_def]) simp_all
  with en g m p have r: "pickSong E cfg e s =
     (Inr RetUndefined,
      reply (PickSongImg d)
        (s2\<lparr>REDIS_YUNZAI_SONGINFO :=
              Some (saveSession l (findIndex (\<lambda>item. group_id item = g) l) \<lparr> group_id = g, data = d \<rparr>)\<rparr>))"
    by (simp add: pickSong_def)
  have 1: "session_of g (snd (pickSong E cfg e s)) = Some \<lparr> group_id = g, data = d \<rparr>"
    unfolding r snd_conv by (rule session_of_saved)
  have 2: "last (outbox (snd (pickSong E cfg e s))) = PickSongImg d"
    unfolding r by (simp add: reply_def)
  have "length d = length (take k matched) + length songs"
    by (simp add: d_def applyDetails_keeps)
  also have "\<dots> \<le> songRequestMaxList cfg" using limit k by simp
  finally have 3: "length d \<le> songRequestMaxList cfg" .
  have 4: "map song_id d = map c_id (take k matched) @ map info_id songs"
    by (simp add: d_def applyDetails_keeps comp_def track_simps)
  have 5: "map duration d = map c_duration (take k matched) @ map (\<lambda>i. formatTime E (info_duration i)) songs"
    by (simp add: d_def applyDetails_keeps comp_def track_simps)
  from 1 2 3 4 5 show ?thesis by blast
qed

theorem C8_merged_list_bounded_and_ordered_witness:
  "map_option (map song_id \<circ> data)
     (session_of 7 (snd (pickSong (catalog_env (Some [catalog_song]) (DetailResult []))
        test_cfg (test_event (PickSong ''Courage'')) library_state))) = Some [3, 11] \<and>
   map_option (map duration \<circ> data)
     (session_of 7 (snd (pickSong (catalog_env (Some [catalog_song]) (DetailResult []))
        test_cfg (test_event (PickSong ''Courage'')) library_state)))
     = Some [CLOUD_LABEL, ''03:20''] \<and>
   length [3, 11 :: nat] \<le> songRequestMaxList test_cfg"
proof -
  have "\<exists>d. session_of 7 (snd (pickSong (catalog_env (Some [catalog_song]) (DetailResult []))
            test_cfg (test_event (PickSong ''Courage'')) library_state))
          = Some \<lparr> group_id = 7, data = d \<rparr> \<and>
        last (outbox (snd (pickSong (catalog_env (Some [catalog_song]) (DetailResult []))
            test_cfg (test_event (PickSong ''Courage'')) library_state))) = PickSongImg d \<and>
        length d \<le> 5 \<and> map song_id d = [3, 11] \<and> map duration d = [CLOUD_LABEL, ''03:20'']"
    using C8_merged_list_bounded_and_ordered [of test_cfg "test_event (PickSong ''Courage'')" 7
        "''Courage''"
        "[\<lparr> c_songName = ''Courage'', c_id = 3, c_singerName = ''Fish Leong'', c_duration = CLOUD_LABEL \<rparr>]"
        "catalog_env (Some [catalog_song]) (DetailResult [])" library_state 1 "[catalog_song]" "[]"]
    by (simp add: getCloudSong_def pickApi_def isOverseasServer_def matches_Courage
        catalog_env_def quiet_env_def test_cfg_def test_event_def init_state_def library_state_def
        group_of_def Let_def catalog_song_def)
  then obtain d where h:
    "session_of 7 (snd (pickSong (catalog_env (Some [catalog_song]) (DetailResult []))
            test_cfg (test_event (PickSong ''Courage'')) library_state))
          = Some \<lparr> group_id = 7, data = d \<rparr> \<and>
        last (outbox (snd (pickSong (catalog_env (Some [catalog_song]) (DetailResult []))
            test_cfg (test_event (PickSong ''Courage'')) library_state))) = PickSongImg d \<and>
        length d \<le> 5 \<and> map song_id d = [3, 11] \<and> map duration d = [CLOUD_LABEL, ''03:20'']" ..
  from h have 1: "session_of 7 (snd (pickSong (catalog_env (Some [catalog_song]) (DetailResult []))
            test_cfg (test_event (PickSong ''Courage'')) library_state))
          = Some \<lparr> group_id = 7, data = d \<rparr>" by (rule conjunct1)
  from h have 2: "map song_id d = [3, 11]" by simp
  from h have 3: "map duration d = [CLOUD_LABEL, ''03:20'']" by simp
  show ?thesis
    unfolding 1 using 2 3 by (simp add: test_cfg_def)
qed

subsection \<open>Short play command\<close>

lemma session_of_pickApi: "session_of g (snd (pickApi cfg s)) = session_of g s"
  by (simp add: session_of_def pickApi_frame)

lemma pickSong_listen_raises:
  assumes "session_of g s = None \<or> (\<exists>m. session_of g s = Some m \<and> length (data m) < n)"
  shows "pickSong_listen E cfg e api g n s = (Inl TypeError, s)"
proof (cases "REDIS_YUNZAI_SONGINFO s")
  case None
  then show ?thesis by (simp add: pickSong_listen_def)
next
  case (Some songInfo)
  show ?thesis
  proof (cases "findIndex (\<lambda>item. group_id item = g) songInfo")
    case None
    with Some show ?thesis by (simp add: pickSong_listen_def)
  next
    case (Some i)
    note idx = findIndex_Some [OF Some]
    with \<open>REDIS_YUNZAI_SONGINFO s = Some songInfo\<close> assms
    have "length (data (songInfo ! i)) < n" by (auto simp: session_of_def)
    then have "nth_opt (data (songInfo ! i)) (int n - 1) = None"
      by (simp add: nth_opt_def)
    with Some \<open>REDIS_YUNZAI_SONGINFO s = Some songInfo\<close> show ?thesis
      by (simp add: pickSong_listen_def)
  qed
qed

text \<open>
  Claim C10: resolving the short play command with number \<open>N\<close> (feature enabled, in a
  group) when no session is stored for the conversation, or when \<open>N\<close> exceeds the length
  of the stored list, raises a \<open>TypeError\<close> and sends nothing to the user.
\<close>

theorem C10_listen_without_session_raises:
  assumes "useNeteaseSongRequest cfg" and "group_of e = Some g" and "msg e = Listen n"
    and "session_of g s = None \<or> (\<exists>m. session_of g s = Some m \<and> length (data m) < n)"
  shows "fst (pickSong E cfg e s) = Inl TypeError \<and> outbox (snd (pickSong E cfg e s)) = outbox s"
proof -
  obtain api s1 where p: "pickApi cfg s = (api, s1)" by (cases "pickApi cfg s")
  then have s1: "s1 = snd (pickApi cfg s)" by simp
  have "session_of g s1 = None \<or> (\<exists>m. session_of g s1 = Some m \<and> length (data m) < n)"
    using assms(4) by (simp add: s1 session_of_pickApi)
  then have "pickSong_listen E cfg e api g n s1 = (Inl TypeError, s1)"
    by (rule pickSong_listen_raises)
  with assms(1-3) p have "pickSong E cfg e s = (Inl TypeError, s1)"
    by (simp add: pickSong_def)
  then show ?thesis
    by (simp add: s1 pickApi_frame)
qed

theorem C10_listen_without_session_raises_witness:
  "fst (pickSong quiet_env test_cfg (test_event (Listen 2)) init_state) = Inl TypeError \<and>
   outbox (snd (pickSong quiet_env test_cfg (test_event (Listen 2)) init_state)) = [] \<and>
   fst (pickSong quiet_env test_cfg (test_event (Listen 2)) one_track_state) = Inl TypeError \<and>
   outbox (snd (pickSong quiet_env test_cfg (test_event (Listen 2)) one_track_state)) = []"
  using C10_listen_without_session_raises [of test_cfg "test_event (Listen 2)" 7 2 init_state quiet_env]
    C10_listen_without_session_raises [of test_cfg "test_event (Listen 2)" 7 2 one_track_state quiet_env]
  by (simp add: test_cfg_def test_event_def group_of_def session_of_def one_track_state_def
      init_state_def)

subsection \<open>Delivery Orchestrator\<close>

lemma str7: "string_of_nat 7 = ''7''"
  by code_simp

lemma nth_one: "nth_opt [one_track] 0 = Some one_track"
  by (simp add: nth_opt_def)

lemma announce_play:
  "announce (play_env b) test_cfg (SongUrl ''https://oversea.example'' 11 ''exhigh'')
          (WikiUrl ''https://oversea.example'' 11) [one_track] 0 True False s
   = (Inr (Some ''https://m.example/11.mp3'', ''Fish Leong-Courage (Live)'', Some ''mp3''),
      reply (MusicInfoImg \<lparr> mi_cover = None, mi_songName = ''Courage (Live)'',
          mi_singerName = Some ''Fish Leong'', mi_size = SizeMB (Some 8000000),
          musicType = [Some ''Pop'', translateToChinese (Some ''exhigh'')] \<rparr>) s)"
  by (simp add: announce_def nth_opt_def play_env_def quiet_env_def mp3_entry_def one_track_def js_str_def Let_def)


lemma test_path: "getCurDownloadPath test_cfg (test_event c) = ''./data/rcmp4/7''"
  by (simp add: getCurDownloadPath_def group_of_def test_event_def test_cfg_def str7)

lemma play_download:
  "downloadAudio (play_env b) u ''./data/rcmp4/7'' ''Fish Leong-Courage (Live)'' (Some ''mp3'')
     = Some ''./data/rcmp4/7/Fish Leong-Courage (Live).mp3''"
  by (simp add: play_env_def js_str_def)

text \<open>
  Claim C5, as stated: in every delivery whose download succeeds the downloaded file is
  deleted afterwards, whichever channel delivered. It fails when the music card was sent:
  the removal sits inside \<open>if (!cardSentSuccessfully)\<close>, and the file stays on disk.
\<close>

theorem C5_card_sent_counterexample:
  "fst (neteasePlay (play_env True) test_cfg (test_event (Listen 1)) (SongUrl ''https://oversea.example'' 11 ''exhigh'')
          (WikiUrl ''https://oversea.example'' 11) [one_track] 0 True False init_state) = Inr () \<and>
   downloadAudio (play_env True) (Some ''https://m.example/11.mp3'') (getCurDownloadPath test_cfg (test_event (Listen 1)))
      ''Fish Leong-Courage (Live)'' (Some ''mp3'') = Some ''./data/rcmp4/7/Fish Leong-Courage (Live).mp3'' \<and>
   files (snd (neteasePlay (play_env True) test_cfg (test_event (Listen 1)) (SongUrl ''https://oversea.example'' 11 ''exhigh'')
          (WikiUrl ''https://oversea.example'' 11) [one_track] 0 True False init_state)) = {''./data/rcmp4/7/Fish Leong-Courage (Live).mp3''}"
proof -
  have d: "downloadAudio (play_env True) (Some ''https://m.example/11.mp3'') ''./data/rcmp4/7''
      ''Fish Leong-Courage (Live)'' (Some ''mp3'') = Some ''./data/rcmp4/7/Fish Leong-Courage (Live).mp3''"
    by (simp add: play_env_def js_str_def)
  have c: "sendMusicCard (play_env True) 11" by (simp add: play_env_def)
  have i: "song_id one_track = 11" by (simp add: one_track_def)
  show ?thesis
    by (simp add: neteasePlay_def announce_play nth_one deliver_def saved_def test_path d c i Let_def reply_def init_state_def)
qed


text \<open>
  Claim C5, amended: in a delivery that reaches the download step and whose download
  succeeds, the downloaded file is deleted after the raw file transfer was attempted when
  the music card could not be sent, and it is left on disk when the card was sent.
\<close>

theorem C5_file_removed_iff_card_failed:
  assumes a: "announce E cfg pu wu songInfo n ck cl s = (Inr (url, title, ext), s1)"
    and t: "nth_opt songInfo n = Some t"
    and d: "downloadAudio E url (getCurDownloadPath cfg e) title ext = Some path"
  shows "(path \<in> files (snd (neteasePlay E cfg e pu wu songInfo n ck cl s))) = sendMusicCard E (song_id t)"
  by (simp add: neteasePlay_def a t d deliver_def saved_def Let_def reply_def checkAndRemoveFile_def)

theorem C5_file_removed_iff_card_failed_witness:
  "''./data/rcmp4/7/Fish Leong-Courage (Live).mp3'' \<notin>
     files (snd (neteasePlay (play_env False) test_cfg (test_event (Listen 1))
       (SongUrl ''https://oversea.example'' 11 ''exhigh'') (WikiUrl ''https://oversea.example'' 11)
       [one_track] 0 True False init_state))"
  using C5_file_removed_iff_card_failed [OF announce_play nth_one, of False "test_event (Listen 1)"
      "''./data/rcmp4/7/Fish Leong-Courage (Live).mp3''" init_state]
  by (simp add: test_path play_download) (simp add: play_env_def)

subsection \<open>The shared file suffix\<close>

lemma announce_ext:
  assumes "announce E cfg pu wu songInfo n ck cl s = (Inr (url, title, ext), s1)"
  shows "\<exists>ent. song_url_api E pu (if cl then neteaseCloudCookie cfg else neteaseSongCookie cfg) = UrlResult ent
           \<and> ext = Option.bind ent entry_type"
  using assms
  by (auto simp: announce_def Let_def split: url_resp.splits option.splits sum.splits if_splits prod.splits)

lemma neteasePlay_suffix:
  assumes "announce E cfg pu wu songInfo n ck cl s = (Inr (url, title, ext), s1)"
    and "nth_opt songInfo n = Some t"
  shows "FileSuffix (snd (neteasePlay E cfg e pu wu songInfo n ck cl s)) = ext"
  using assms
  by (simp add: neteasePlay_def deliver_def saved_def Let_def reply_def checkAndRemoveFile_def split: option.splits)

lemma upLoad_awaits:
  assumes "reply_msg e = Some \<lparr> card_id = Some i, card_title = Some title, card_desc = Some desc \<rparr>"
    and "i \<noteq> []" and "path = awaited_path cfg e desc title s"
  shows "upLoad E cfg e s =
     (if fst (waitForFile_run (stat_api E path) 120) then
        (if uploadGroupFile_ok E path
         then (Inr (), checkAndRemoveFile path (reply (GroupFile path) s))
         else (Inr (), s))
      else (Inr (), reply (TimeoutMsg 120) s))"
  using assms by (simp add: upLoad_def waitForFile_def Let_def)

lemma uploadCloud_awaits:
  assumes "reply_msg e = Some \<lparr> card_id = Some i, card_title = Some title, card_desc = Some desc \<rparr>"
    and "i \<noteq> []" and "path = awaited_path cfg e desc title s"
  shows "uploadCloud E cfg e s =
     (if fst (waitForFile_run (stat_api E path) 120) then
        (case retryAxiosReq (tryUpload E cfg (fst (pickApi cfg s)) path) (retries E) 0 (snd (pickApi cfg s)) of
           (Inl err, s2) \<Rightarrow> (Inl err, s2)
         | (Inr v, s2) \<Rightarrow> (Inr (), checkAndRemoveFile path s2))
      else (Inr (), reply (TimeoutMsg 120) (snd (pickApi cfg s))))"
proof -
  obtain api s0 where p: "pickApi cfg s = (api, s0)" by (cases "pickApi cfg s")
  then have "FileSuffix s0 = FileSuffix s" using pickApi_frame(3) [of cfg s] by simp
  then have "awaited_path cfg e desc title s0 = path"
    using assms(3) by (simp add: awaited_path_def)
  with assms(1,2) p show ?thesis
    by (simp add: uploadCloud_def waitForFile_def Let_def split: prod.splits sum.splits)
qed


lemma upload_path: "getCurDownloadPath test_cfg upload_event = ''./data/rcmp4/7''"
  by (simp add: getCurDownloadPath_def group_of_def upload_event_def test_cfg_def str7)

lemma quiet_never: "stat_api quiet_env p = never_appears"
  by (simp add: quiet_env_def never_appears_def fun_eq_iff)

text \<open>
  Claim C9, as stated: the upload commands read the suffix of the awaited path from the
  module-level variable, and every delivery overwrites that variable with the extension
  of the track it resolved. The second part fails for a delivery that is rejected before
  the assignment: here the catalog resolves an \<open>mp3\<close> entry, the wiki request fails,
  and the variable keeps its initial value.
\<close>

theorem C9_aborted_delivery_counterexample:
  "song_url_api wiki_down_env (SongUrl ''https://oversea.example'' 11 ''exhigh'') (neteaseSongCookie test_cfg)
     = UrlResult (Some mp3_entry) \<and>
   entry_type mp3_entry = Some ''mp3'' \<and>
   fst (neteasePlay wiki_down_env test_cfg (test_event (Listen 1))
       (SongUrl ''https://oversea.example'' 11 ''exhigh'') (WikiUrl ''https://oversea.example'' 11)
       [one_track] 0 True False init_state) = Inl RequestError \<and>
   FileSuffix (snd (neteasePlay wiki_down_env test_cfg (test_event (Listen 1))
       (SongUrl ''https://oversea.example'' 11 ''exhigh'') (WikiUrl ''https://oversea.example'' 11)
       [one_track] 0 True False init_state)) = Some ''flac''"
  by (simp add: neteasePlay_def announce_def nth_opt_def wiki_down_env_def quiet_env_def
      mp3_entry_def Let_def init_state_def)

text \<open>
  Claim C9, amended: the module-level variable is initially \<open>flac\<close>; every delivery
  that gets past its announcement (URL request, wiki lookup and card rendering) overwrites
  it with the extension of the entry it resolved; and \<open>upLoad\<close> and \<open>uploadCloud\<close>,
  whatever message they are given, wait for the path whose suffix is that variable, that
  is the extension of the most recent such delivery.
\<close>

theorem C9_upload_awaits_suffix_of_last_delivery:
  assumes a: "announce E cfg pu wu songInfo n ck cl s = (Inr (url, title, ext), s1)"
    and t: "nth_opt songInfo n = Some t"
    and s': "s' = snd (neteasePlay E cfg e pu wu songInfo n ck cl s)"
    and c: "reply_msg e' = Some \<lparr> card_id = Some i, card_title = Some title', card_desc = Some desc \<rparr>"
    and i: "i \<noteq> []"
    and path: "path = getCurDownloadPath cfg e' @ ''/'' @ desc @ ''-'' @ title' @ ''.'' @ js_str ext"
  shows "FileSuffix init_state = Some ''flac'' \<and>
    (\<exists>ent. song_url_api E pu (if cl then neteaseCloudCookie cfg else neteaseSongCookie cfg) = UrlResult ent
           \<and> ext = Option.bind ent entry_type) \<and>
    FileSuffix s' = ext \<and>
    upLoad E' cfg e' s' =
     (if fst (waitForFile_run (stat_api E' path) 120) then
        (if uploadGroupFile_ok E' path
         then (Inr (), checkAndRemoveFile path (reply (GroupFile path) s'))
         else (Inr (), s'))
      else (Inr (), reply (TimeoutMsg 120) s')) \<and>
    uploadCloud E' cfg e' s' =
     (if fst (waitForFile_run (stat_api E' path) 120) then
        (case retryAxiosReq (tryUpload E' cfg (fst (pickApi cfg s')) path) (retries E') 0 (snd (pickApi cfg s')) of
           (Inl err, s2) \<Rightarrow> (Inl err, s2)
         | (Inr v, s2) \<Rightarrow> (Inr (), checkAndRemoveFile path s2))
      else (Inr (), reply (TimeoutMsg 120) (snd (pickApi cfg s'))))"
proof -
  have sfx: "FileSuffix s' = ext"
    unfolding s' using a t by (rule neteasePlay_suffix)
  then have p: "path = awaited_path cfg e' desc title' s'"
    by (simp add: path awaited_path_def)
  show ?thesis
    using sfx announce_ext [OF a] upLoad_awaits [OF c i p, of E'] uploadCloud_awaits [OF c i p, of E']
    by (simp add: init_state_def)
qed

theorem C9_upload_awaits_suffix_of_last_delivery_witness:
  "FileSuffix delivered_state = Some ''mp3'' \<and>
   upLoad quiet_env test_cfg upload_event delivered_state
     = (Inr (), reply (TimeoutMsg 120) delivered_state) \<and>
   uploadCloud quiet_env test_cfg upload_event delivered_state
     = (Inr (), reply (TimeoutMsg 120) (snd (pickApi test_cfg delivered_state)))"
proof -
  have c: "reply_msg upload_event = Some \<lparr> card_id = Some ''11'',
      card_title = Some ''Courage (Live)'', card_desc = Some ''Fish Leong'' \<rparr>"
    by (simp add: upload_event_def)
  have i: "''11'' \<noteq> []" by simp
  have p: "''./data/rcmp4/7/Fish Leong-Courage (Live).mp3'' =
      getCurDownloadPath test_cfg upload_event @ ''/'' @ ''Fish Leong'' @ ''-'' @
        ''Courage (Live)'' @ ''.'' @ js_str (Some ''mp3'')"
    by (simp add: upload_path js_str_def)
  have nr: "\<not> fst (waitForFile_run
      (stat_api quiet_env ''./data/rcmp4/7/Fish Leong-Courage (Live).mp3'') 120)"
    by (simp add: quiet_never waitForFile_run_def never_appears_loop)
  show ?thesis
    using C9_upload_awaits_suffix_of_last_delivery [OF announce_play nth_one delivered_state_def c i p, of quiet_env] nr
    by simp
qed

subsection \<open>Cloud Upload Coordinator\<close>

lemma ready5: "fst (waitForFile_run (\<lambda>k. Size 5) 120)"
proof -
  have "(0::nat) + 2 < 120 \<and> stable_at (\<lambda>k. Size 5) 0" by (simp add: stable_at_def)
  then have "\<exists>i. i + 2 < (120::nat) \<and> stable_at (\<lambda>k. Size 5) i" by (rule exI)
  then show ?thesis
    using waitLoop_inv [of 0 "\<lambda>k. Size 5" 120]
    by (simp add: waitForFile_run_def lastOf_def checksOf_alt)
qed

lemma upload_stat: "stat_api (upload_env n) p = (\<lambda>k. Size 5)"
  by (simp add: upload_env_def quiet_env_def)

lemma upload_retries: "retries (upload_env n) = Suc (Suc (Suc 0))"
  by (simp add: upload_env_def quiet_env_def)

lemma tryUpload_refused:
  "k < n \<Longrightarrow> tryUpload (upload_env n) cfg api path k s = (Inl UploadError, s)"
  by (simp add: tryUpload_def upload_env_def quiet_env_def)

lemma tryUpload_accepted:
  "n \<le> k \<Longrightarrow> tryUpload (upload_env n) cfg api path k s = (Inr (), songCloudUpdate (upload_env n) cfg s)"
  by (simp add: tryUpload_def upload_env_def quiet_env_def)

lemma myCloud_files: "files (snd (myCloud E cfg s)) = files s"
proof -
  obtain api s1 where p: "pickApi cfg s = (api, s1)" by (cases "pickApi cfg s")
  then have "files s1 = files s" using pickApi_frame(4) [of cfg s] by simp
  with p show ?thesis
    by (simp add: myCloud_def reply_def split: option.splits)
qed

lemma songCloudUpdate_files: "files (songCloudUpdate E cfg s) = files s"
  by (simp add: songCloudUpdate_def Let_def myCloud_files getCloudSong_frame reply_def cleanCloudData_def)


lemma upload_card:
  "reply_msg upload_event = Some \<lparr> card_id = Some ''11'',
      card_title = Some ''Courage (Live)'', card_desc = Some ''Fish Leong'' \<rparr>"
  by (simp add: upload_event_def)

lemma flac_path_awaited:
  "flac_path = awaited_path test_cfg upload_event ''Fish Leong'' ''Courage (Live)'' downloaded_state"
  by (simp add: flac_path_def awaited_path_def downloaded_state_def init_state_def)

lemma uploadCloud_run:
  "uploadCloud (upload_env n) test_cfg upload_event downloaded_state =
     (case retryAxiosReq (tryUpload (upload_env n) test_cfg (fst (pickApi test_cfg downloaded_state)) flac_path)
             (Suc (Suc (Suc 0))) 0 (snd (pickApi test_cfg downloaded_state)) of
        (Inl err, s2) \<Rightarrow> (Inl err, s2)
      | (Inr v, s2) \<Rightarrow> (Inr (), checkAndRemoveFile flac_path s2))"
  using uploadCloud_awaits [OF upload_card _ flac_path_awaited, of "upload_env n"]
  by (simp add: upload_stat ready5 upload_retries)

text \<open>
  Claim C7: the local temp file is deleted both when the retried upload succeeds and when
  the retry wrapper exhausts its retries and fails. The removal follows
  \<open>await retryAxiosReq(...)\<close> without a \<open>finally\<close>: when all four attempts are refused
  the command is rejected and the file is still on disk; when the second attempt is
  accepted the file is removed.
\<close>

theorem C7_exhausted_retries_keep_file:
  "flac_path \<in> files downloaded_state \<and>
   fst (waitForFile_run (stat_api (upload_env 4) flac_path) 120) \<and>
   fst (uploadCloud (upload_env 4) test_cfg upload_event downloaded_state) = Inl UploadError \<and>
   flac_path \<in> files (snd (uploadCloud (upload_env 4) test_cfg upload_event downloaded_state)) \<and>
   fst (uploadCloud (upload_env 1) test_cfg upload_event downloaded_state) = Inr () \<and>
   flac_path \<notin> files (snd (uploadCloud (upload_env 1) test_cfg upload_event downloaded_state))"
proof -
  have f: "files (snd (pickApi test_cfg downloaded_state)) = {flac_path}"
    by (simp add: pickApi_frame downloaded_state_def)
  have 1: "flac_path \<in> files downloaded_state" by (simp add: downloaded_state_def)
  have 2: "fst (waitForFile_run (stat_api (upload_env 4) flac_path) 120)"
    by (simp add: upload_stat ready5)
  have 3: "uploadCloud (upload_env 4) test_cfg upload_event downloaded_state
      = (Inl UploadError, snd (pickApi test_cfg downloaded_state))"
    by (simp add: uploadCloud_run tryUpload_refused)
  have 4: "uploadCloud (upload_env 1) test_cfg upload_event downloaded_state
      = (Inr (), checkAndRemoveFile flac_path
           (songCloudUpdate (upload_env 1) test_cfg (snd (pickApi test_cfg downloaded_state))))"
    by (simp add: uploadCloud_run tryUpload_refused tryUpload_accepted)
  show ?thesis
    unfolding 3 4
    by (simp add: 1 2 f checkAndRemoveFile_def songCloudUpdate_files)
qed

end
